theory Spec2Isabelle
  imports Main "HOL-Library.Word"
begin

section \<open>Go values as the server's reflection code sees them\<close>

text \<open>
  The server stores every handler as an \<^verbatim>\<open>interface{}\<close> and drives it through package
  \<^verbatim>\<open>reflect\<close>. What the code observes of a value is its dynamic type, the kind of that
  type, and its content. A type is identified by its type string and its kind.
\<close>

datatype kind =
    KBool | KInt | KInt8 | KInt16 | KInt32 | KInt64
  | KUint | KUint8 | KUint16 | KUint32 | KUint64 | KUintptr
  | KFloat32 | KFloat64 | KComplex64 | KComplex128
  | KArray | KChan | KFunc | KInterface | KMap | KPointer | KSlice
  | KString | KStruct | KUnsafePointer

fun kind_name :: "kind \<Rightarrow> string" where
  "kind_name KBool = ''bool''"
| "kind_name KInt = ''int''"
| "kind_name KInt8 = ''int8''"
| "kind_name KInt16 = ''int16''"
| "kind_name KInt32 = ''int32''"
| "kind_name KInt64 = ''int64''"
| "kind_name KUint = ''uint''"
| "kind_name KUint8 = ''uint8''"
| "kind_name KUint16 = ''uint16''"
| "kind_name KUint32 = ''uint32''"
| "kind_name KUint64 = ''uint64''"
| "kind_name KUintptr = ''uintptr''"
| "kind_name KFloat32 = ''float32''"
| "kind_name KFloat64 = ''float64''"
| "kind_name KComplex64 = ''complex64''"
| "kind_name KComplex128 = ''complex128''"
| "kind_name KArray = ''array''"
| "kind_name KChan = ''chan''"
| "kind_name KFunc = ''func''"
| "kind_name KInterface = ''interface''"
| "kind_name KMap = ''map''"
| "kind_name KPointer = ''ptr''"
| "kind_name KSlice = ''slice''"
| "kind_name KString = ''string''"
| "kind_name KStruct = ''struct''"
| "kind_name KUnsafePointer = ''unsafe.Pointer''"

datatype gotype = GoType (type_string: string) (Kind: kind)

text \<open>The predeclared type of a basic kind (\<^verbatim>\<open>int\<close>, \<^verbatim>\<open>string\<close>, \<^verbatim>\<open>float64\<close>, ...).\<close>

definition basic :: "kind \<Rightarrow> gotype" where
  "basic k = GoType (kind_name k) k"

definition t_any :: gotype where
  "t_any = GoType ''interface {}'' KInterface"

definition t_error :: gotype where
  "t_error = GoType ''error'' KInterface"

definition t_errorString :: gotype where
  "t_errorString = GoType ''*errors.errorString'' KPointer"

definition t_slice_any :: gotype where
  "t_slice_any = GoType ''[]interface {}'' KSlice"

definition t_map_any :: gotype where
  "t_map_any = GoType ''map[string]interface {}'' KMap"

definition t_TextContent :: gotype where
  "t_TextContent = GoType ''protocol.TextContent'' KStruct"

definition t_PromptMessages :: gotype where
  "t_PromptMessages = GoType ''[]protocol.PromptMessage'' KSlice"

text \<open>
  The content of an \<^verbatim>\<open>interface{}\<close>. \<open>VNil\<close> is the nil interface. What
  \<^verbatim>\<open>encoding/json\<close> puts into a \<^verbatim>\<open>map[string]interface{}\<close> is \<open>VNil\<close>, \<open>VBool\<close>,
  \<open>VFloat KFloat64\<close> (a float64, kept as its 64 bits), \<open>VString\<close>, \<open>VSlice\<close> and \<open>VMap\<close>.
  \<open>VError\<close> is a non-nil error value with the text of its \<^verbatim>\<open>Error()\<close>; \<open>VMessages\<close> is a
  \<^verbatim>\<open>[]protocol.PromptMessage\<close> as (role, content) pairs; \<open>VZero t\<close> is the zero value of
  a type that has no other constructor here (a nil slice, map or pointer, an empty struct);
  \<open>VNamed t v\<close> is the value \<open>v\<close> at a defined type \<open>t\<close> over a basic kind; \<open>VOpaque\<close> is
  any other non-zero value, known by its type and a token.
\<close>

datatype govalue =
    VNil
  | VBool bool
  | VString string
  | VInt kind int
  | VUint kind nat
  | VFloat kind "64 word"
  | VSlice "govalue list"
  | VMap "(string \<times> govalue) list"
  | VTextContent string string
  | VMessages "(string \<times> govalue) list"
  | VError string
  | VZero gotype
  | VNamed gotype govalue
  | VOpaque gotype nat

fun dyn_type :: "govalue \<Rightarrow> gotype option" where
  "dyn_type VNil = None"
| "dyn_type (VBool _) = Some (basic KBool)"
| "dyn_type (VString _) = Some (basic KString)"
| "dyn_type (VInt k _) = Some (basic k)"
| "dyn_type (VUint k _) = Some (basic k)"
| "dyn_type (VFloat k _) = Some (basic k)"
| "dyn_type (VSlice _) = Some t_slice_any"
| "dyn_type (VMap _) = Some t_map_any"
| "dyn_type (VTextContent _ _) = Some t_TextContent"
| "dyn_type (VMessages _) = Some t_PromptMessages"
| "dyn_type (VError _) = Some t_errorString"
| "dyn_type (VZero t) = Some t"
| "dyn_type (VNamed t _) = Some t"
| "dyn_type (VOpaque t _) = Some t"

text \<open>
  A \<^verbatim>\<open>reflect.Value\<close>: the zero Value (what \<^verbatim>\<open>reflect.ValueOf(nil)\<close> returns), or a
  value with its static type. A Value of interface type holds any content, \<open>VNil\<close> too.
\<close>

datatype rvalue = ZeroValue | Value gotype govalue

text \<open>\<^verbatim>\<open>reflect.ValueOf(x)\<close>, and \<^verbatim>\<open>v.Interface()\<close> (the code calls it on valid Values only).\<close>

definition ValueOf :: "govalue \<Rightarrow> rvalue" where
  "ValueOf v = (case dyn_type v of None \<Rightarrow> ZeroValue | Some t \<Rightarrow> Value t v)"

fun Interface :: "rvalue \<Rightarrow> govalue" where
  "Interface ZeroValue = VNil"
| "Interface (Value t v) = v"

fun zero_basic :: "kind \<Rightarrow> govalue option" where
  "zero_basic KBool = Some (VBool False)"
| "zero_basic KString = Some (VString [])"
| "zero_basic KInt = Some (VInt KInt 0)"
| "zero_basic KInt8 = Some (VInt KInt8 0)"
| "zero_basic KInt16 = Some (VInt KInt16 0)"
| "zero_basic KInt32 = Some (VInt KInt32 0)"
| "zero_basic KInt64 = Some (VInt KInt64 0)"
| "zero_basic KUint = Some (VUint KUint 0)"
| "zero_basic KUint8 = Some (VUint KUint8 0)"
| "zero_basic KUint16 = Some (VUint KUint16 0)"
| "zero_basic KUint32 = Some (VUint KUint32 0)"
| "zero_basic KUint64 = Some (VUint KUint64 0)"
| "zero_basic KUintptr = Some (VUint KUintptr 0)"
| "zero_basic KFloat32 = Some (VFloat KFloat32 0)"
| "zero_basic KFloat64 = Some (VFloat KFloat64 0)"
| "zero_basic _ = None"

text \<open>A value of basic kind at type \<open>t\<close>: bare at the predeclared type, tagged otherwise.\<close>

definition at_type :: "gotype \<Rightarrow> govalue \<Rightarrow> govalue" where
  "at_type t v = (if t = basic (Kind t) then v else VNamed t v)"

definition zero_of :: "gotype \<Rightarrow> govalue" where
  "zero_of t =
     (if Kind t = KInterface then VNil
      else case zero_basic (Kind t) of None \<Rightarrow> VZero t | Some v \<Rightarrow> at_type t v)"

text \<open>\<^verbatim>\<open>reflect.Zero(t)\<close>.\<close>

definition Zero :: "gotype \<Rightarrow> rvalue" where
  "Zero t = Value t (zero_of t)"

section \<open>Errors, panics and results\<close>

text \<open>
  The server builds its errors with \<^verbatim>\<open>fmt.Errorf\<close>; each call site is a constructor here
  and \<open>error_text\<close> gives the text. \<open>Wrap p e\<close> is \<^verbatim>\<open>fmt.Errorf(p + ": %w", e)\<close>,
  \<open>LibError\<close> an error of the standard library with its text, \<open>HandlerError\<close> an error value
  that a handler returned.
\<close>

datatype error =
    AlreadyInitialized
  | NotInitialized
  | UnknownMethod string
  | UnknownNotification string
  | ToolNotFound string
  | PromptNotFound string
  | MissingArgument string
  | ArgumentsNil
  | ToolExists string
  | ResourceExists string
  | PromptExists string
  | NoMatchingResource string
  | HandlerNotFunction
  | NotEnoughParameters string
  | UnsupportedType gotype
  | InvalidPromptReturn string
  | HandlerError string
  | LibError string
  | Wrap string error

fun error_text :: "error \<Rightarrow> string" where
  "error_text AlreadyInitialized = ''server already initialized''"
| "error_text NotInitialized = ''server not initialized''"
| "error_text (UnknownMethod m) = ''unknown method: '' @ m"
| "error_text (UnknownNotification m) = ''unknown notification method: '' @ m"
| "error_text (ToolNotFound n) = ''tool not found: '' @ n"
| "error_text (PromptNotFound n) = ''prompt not found: '' @ n"
| "error_text (MissingArgument a) = ''missing argument: '' @ a"
| "error_text ArgumentsNil = ''arguments map is nil''"
| "error_text (ToolExists n) = ''tool '' @ n @ '' already exists''"
| "error_text (ResourceExists n) = ''resource '' @ n @ '' already exists''"
| "error_text (PromptExists n) = ''prompt '' @ n @ '' already exists''"
| "error_text (NoMatchingResource u) = ''no matching resource found for '' @ u"
| "error_text HandlerNotFunction = ''handler must be a function''"
| "error_text (NotEnoughParameters p) = ''not enough parameters in handler for pattern '' @ p"
| "error_text (UnsupportedType t) = ''unsupported type: '' @ type_string t"
| "error_text (InvalidPromptReturn t) = ''invalid prompt handler return type: '' @ t"
| "error_text (HandlerError m) = m"
| "error_text (LibError m) = m"
| "error_text (Wrap p e) = p @ '': '' @ error_text e"

text \<open>
  What a call does: it returns a value, returns an error, or panics (the goroutine
  unwinds; nothing in the server recovers).
\<close>

datatype 'a outcome = Success 'a | Failure error | Panic string

definition nil_deref :: string where
  "nil_deref = ''runtime error: invalid memory address or nil pointer dereference''"

section \<open>Handlers and \<^verbatim>\<open>reflect.Value.Call\<close>\<close>

text \<open>
  A handler is whatever was passed at registration: nil, a value that is not a function,
  or a function with its parameter types, result types and behaviour. Functions are not
  variadic here, and \<open>run\<close> returns one content per result type. Handler bodies are taken
  to return.
\<close>

record gofunc =
  ins :: "gotype list"
  outs :: "gotype list"
  run :: "govalue list \<Rightarrow> govalue list"

datatype handler = NilHandler | NotFunc gotype | Func gofunc

text \<open>
  \<^verbatim>\<open>x.Type().AssignableTo(t)\<close> for the types above: identical types, any type to
  \<^verbatim>\<open>interface{}\<close>, an error value to \<^verbatim>\<open>error\<close>.
\<close>

definition AssignableTo :: "gotype \<Rightarrow> gotype \<Rightarrow> bool" where
  "AssignableTo xt targ =
     (xt = targ \<or> targ = t_any \<or> (targ = t_error \<and> xt = t_errorString))"

fun check_assignable :: "rvalue list \<Rightarrow> gotype list \<Rightarrow> string option" where
  "check_assignable (Value xt v # xs) (targ # ts) =
     (if AssignableTo xt targ then check_assignable xs ts
      else Some (''reflect: Call using '' @ type_string xt @ '' as type '' @ type_string targ))"
| "check_assignable _ _ = None"

text \<open>
  \<^verbatim>\<open>reflect.ValueOf(h).Call(in)\<close> on a function: the argument count, then a zero Value
  among the arguments, then assignability in order; each failure is a panic. The results
  carry the declared result types.
\<close>

definition Call :: "gofunc \<Rightarrow> rvalue list \<Rightarrow> rvalue list outcome" where
  "Call f args =
     (if length args < length (ins f) then Panic ''reflect: Call with too few input arguments''
      else if length args > length (ins f) then Panic ''reflect: Call with too many input arguments''
      else if ZeroValue \<in> set args then Panic ''reflect: Call using zero Value argument''
      else case check_assignable args (ins f) of
             Some msg \<Rightarrow> Panic msg
           | None \<Rightarrow> Success (map2 Value (outs f) (run f (map Interface args))))"

text \<open>\<^verbatim>\<open>v.IsNil()\<close>: panics unless the kind can be nil.\<close>

definition nilable :: "kind \<Rightarrow> bool" where
  "nilable k = (k = KChan \<or> k = KFunc \<or> k = KInterface \<or> k = KMap \<or> k = KPointer
                \<or> k = KSlice \<or> k = KUnsafePointer)"

fun is_zero_content :: "govalue \<Rightarrow> bool" where
  "is_zero_content (VZero t) = True"
| "is_zero_content _ = False"

fun IsNil :: "rvalue \<Rightarrow> bool outcome" where
  "IsNil ZeroValue = Panic ''reflect: call of reflect.Value.IsNil on zero Value''"
| "IsNil (Value t v) =
     (if nilable (Kind t)
      then Success (if Kind t = KInterface then v = VNil else is_zero_content v)
      else Panic (''reflect: call of reflect.Value.IsNil on '' @ kind_name (Kind t) @ '' Value''))"

text \<open>
  \<^verbatim>\<open>v.String()\<close>: the string of a Value of kind String, and for every other kind the
  placeholder \<^verbatim>\<open><T Value>\<close> with the type's name; it does not panic.
\<close>

fun string_content :: "govalue \<Rightarrow> string" where
  "string_content (VString s) = s"
| "string_content (VNamed t (VString s)) = s"
| "string_content _ = []"

fun ValueString :: "rvalue \<Rightarrow> string" where
  "ValueString ZeroValue = ''<invalid Value>''"
| "ValueString (Value t v) =
     (if Kind t = KString then string_content v else ''<'' @ type_string t @ '' Value>'')"

text \<open>\<^verbatim>\<open>v.Interface().(error)\<close>: the text of the error, or a panic.\<close>

fun as_error :: "rvalue \<Rightarrow> string outcome" where
  "as_error (Value t (VError m)) = Success m"
| "as_error _ = Panic ''interface conversion: interface is not error''"

text \<open>\<^verbatim>\<open>fmt.Sprintf("%d", i)\<close> for a loop index.\<close>

function show_nat :: "nat \<Rightarrow> string" where
  "show_nat n =
     (if n < 10 then [''0123456789'' ! n]
      else show_nat (n div 10) @ [''0123456789'' ! (n mod 10)])"
  by pat_completeness auto
termination
  by (relation "measure id") auto

declare show_nat.simps [simp del]

section \<open>Protocol types\<close>

definition LatestProtocolVersion :: string where
  "LatestProtocolVersion = ''2024-11-05''"

record Implementation =
  Name :: string
  Version :: string

record ServerCapabilities =
  Experimental :: "(string \<times> (string \<times> govalue) list) list"
  Logging :: "unit option"
  Prompts :: "bool option option"
  Resources :: "(bool option \<times> bool option) option"
  Tools :: "bool option option"

record ClientCapabilities =
  Experimental :: "(string \<times> (string \<times> govalue) list) list"
  Sampling :: "unit option"
  Roots :: "bool option option"

record InitializeRequestParams =
  ProtocolVersion :: string
  Capabilities :: ClientCapabilities
  ClientInfo :: Implementation

record CallToolRequestParams =
  Name :: string
  Arguments :: "(string \<rightharpoonup> govalue) option"

text \<open>\<open>URI\<close> is nil, or the URL by the text its \<^verbatim>\<open>String()\<close> returns.\<close>

record ReadResourceRequestParams =
  URI :: "string option"

record GetPromptRequestParams =
  Name :: string
  Arguments :: "string \<rightharpoonup> string"

record CancelledNotificationParams =
  RequestID :: govalue
  Reason :: string

text \<open>
  The handlers assert that \<^verbatim>\<open>req.Params\<close> is a \<^verbatim>\<open>json.RawMessage\<close> and hand it to
  \<^verbatim>\<open>json.Unmarshal\<close>. The decoder is the standard library's: a raw message is given here
  by what the decoder returns for each parameter struct, the error text or the struct.
\<close>

record raw_message =
  as_InitializeRequestParams :: "string + InitializeRequestParams"
  as_CallToolRequestParams :: "string + CallToolRequestParams"
  as_ReadResourceRequestParams :: "string + ReadResourceRequestParams"
  as_GetPromptRequestParams :: "string + GetPromptRequestParams"
  as_CancelledNotificationParams :: "string + CancelledNotificationParams"

datatype params = NotRawMessage | RawMessage raw_message

record JSONRPCRequest =
  JSONRPC :: string
  ID :: govalue
  Method :: string
  Params :: params

record JSONRPCNotification =
  JSONRPC :: string
  Method :: string
  Params :: params

record InitializeResult =
  ProtocolVersion :: string
  Capabilities :: ServerCapabilities
  ServerInfo :: Implementation

record CallToolResult =
  Content :: "govalue list"
  IsError :: bool

text \<open>
  The list results are built by ranging over a Go map, in no fixed order: they are
  the set of their entries here.
\<close>

datatype result =
    ResInitialize InitializeResult
  | ResEmpty
  | ResListTools "(string \<times> string) set"
  | ResCallTool CallToolResult
  | ResListResources "(string \<times> string \<times> string) set"
  | ResReadResource "govalue list"
  | ResListPrompts "(string \<times> string) set"
  | ResGetPrompt string "(string \<times> govalue) list"

record JSONRPCResponse =
  JSONRPC :: string
  ID :: govalue
  Result :: result

record ErrorData =
  Code :: int
  Message :: string
  Data :: string

record JSONRPCError =
  JSONRPC :: string
  ID :: govalue
  Error :: ErrorData

definition type_assert_panic :: string where
  "type_assert_panic = ''interface conversion: interface {} is not json.RawMessage''"

section \<open>The server and its registry\<close>

record Tool =
  Handler :: handler
  Description :: string
  IsAsync :: bool

record Resource =
  Handler :: handler
  Description :: string
  Pattern :: string

record Prompt =
  Handler :: handler
  Description :: string

record Server =
  name :: string
  capabilities :: ServerCapabilities
  info :: Implementation
  tools :: "string \<rightharpoonup> Tool"
  resources :: "string \<rightharpoonup> Resource"
  prompts :: "string \<rightharpoonup> Prompt"

record Session =
  initialized :: bool
  capabilities :: ClientCapabilities
  clientInfo :: Implementation

definition NewServer :: "string \<Rightarrow> Server" where
  "NewServer n =
     \<lparr> name = n,
       capabilities = \<lparr> ServerCapabilities.Experimental = [], Logging = Some (),
                        Prompts = Some None, Resources = Some (None, None), Tools = Some None \<rparr>,
       info = \<lparr> Implementation.Name = n, Version = LatestProtocolVersion \<rparr>,
       tools = Map.empty, resources = Map.empty, prompts = Map.empty \<rparr>"

definition NewSession :: Session where
  "NewSession =
     \<lparr> initialized = False,
       capabilities = \<lparr> ClientCapabilities.Experimental = [], Sampling = None, Roots = None \<rparr>,
       clientInfo = \<lparr> Implementation.Name = [], Version = [] \<rparr> \<rparr>"

text \<open>Registration returns the server and the error (\<open>None\<close> is Go's nil error).\<close>

definition AddTool :: "Server \<Rightarrow> string \<Rightarrow> handler \<Rightarrow> string \<Rightarrow> Server \<times> error option" where
  "AddTool s n h d =
     (case tools s n of
        Some _ \<Rightarrow> (s, Some (ToolExists n))
      | None \<Rightarrow>
          (s\<lparr>tools := (tools s)(n \<mapsto> \<lparr> Tool.Handler = h, Description = d, IsAsync = False \<rparr>)\<rparr>,
           None))"

definition AddAsyncTool :: "Server \<Rightarrow> string \<Rightarrow> handler \<Rightarrow> string \<Rightarrow> Server \<times> error option" where
  "AddAsyncTool s n h d =
     (case tools s n of
        Some _ \<Rightarrow> (s, Some (ToolExists n))
      | None \<Rightarrow>
          (s\<lparr>tools := (tools s)(n \<mapsto> \<lparr> Tool.Handler = h, Description = d, IsAsync = True \<rparr>)\<rparr>,
           None))"

definition AddResource :: "Server \<Rightarrow> string \<Rightarrow> handler \<Rightarrow> string \<Rightarrow> Server \<times> error option" where
  "AddResource s p h d =
     (case resources s p of
        Some _ \<Rightarrow> (s, Some (ResourceExists p))
      | None \<Rightarrow>
          (s\<lparr>resources := (resources s)(p \<mapsto>
               \<lparr> Resource.Handler = h, Description = d, Pattern = p \<rparr>)\<rparr>,
           None))"

definition AddPrompt :: "Server \<Rightarrow> string \<Rightarrow> handler \<Rightarrow> string \<Rightarrow> Server \<times> error option" where
  "AddPrompt s n h d =
     (case prompts s n of
        Some _ \<Rightarrow> (s, Some (PromptExists n))
      | None \<Rightarrow>
          (s\<lparr>prompts := (prompts s)(n \<mapsto> \<lparr> Prompt.Handler = h, Description = d \<rparr>)\<rparr>,
           None))"

section \<open>The standard library as a parameter\<close>

text \<open>
  The server calls \<^verbatim>\<open>net/url\<close>, \<^verbatim>\<open>regexp\<close> and \<^verbatim>\<open>fmt.Sscanf\<close>. These are not part
  of the repository: the functions below take them as a parameter, each with the result
  the library returns (\<open>Inl\<close> the text of its error).
  \<open>url_Parse u\<close> is the \<^verbatim>\<open>Path\<close> of \<^verbatim>\<open>url.Parse(u)\<close>;
  \<open>regexp_Compile r\<close> is the compiled expression, given by its
  \<^verbatim>\<open>FindStringSubmatch\<close> (\<open>None\<close> is Go's nil: no match);
  \<open>Sscanf_d_int64 s\<close>, \<open>Sscanf_d_uint64 s\<close>, \<open>Sscanf_f s\<close> and \<open>Sscanf_t s\<close> are
  \<^verbatim>\<open>fmt.Sscanf(s, "%d", &i)\<close> for an int64 and for a uint64,
  \<^verbatim>\<open>fmt.Sscanf(s, "%f", &f)\<close> for a float64 and \<^verbatim>\<open>fmt.Sscanf(s, "%t", &b)\<close>.
\<close>

record stdlib =
  url_Parse :: "string \<Rightarrow> string + string"
  regexp_Compile :: "string \<Rightarrow> string + (string \<Rightarrow> string list option)"
  Sscanf_d_int64 :: "string \<Rightarrow> string + int"
  Sscanf_d_uint64 :: "string \<Rightarrow> string + nat"
  Sscanf_f :: "string \<Rightarrow> string + 64 word"
  Sscanf_t :: "string \<Rightarrow> string + bool"

section \<open>\<^verbatim>\<open>convertValue\<close>\<close>

text \<open>
  The width of an integer kind (\<^verbatim>\<open>int\<close> and \<^verbatim>\<open>uint\<close> are 64 bits wide).
  \<^verbatim>\<open>v.SetInt\<close> and \<^verbatim>\<open>v.SetUint\<close> store the value truncated to the width of the kind.
\<close>

fun int_bits :: "kind \<Rightarrow> nat" where
  "int_bits KInt8 = 8"
| "int_bits KUint8 = 8"
| "int_bits KInt16 = 16"
| "int_bits KUint16 = 16"
| "int_bits KInt32 = 32"
| "int_bits KUint32 = 32"
| "int_bits _ = 64"

definition SetInt :: "kind \<Rightarrow> int \<Rightarrow> govalue" where
  "SetInt k i = VInt k ((i + 2 ^ (int_bits k - 1)) mod 2 ^ int_bits k - 2 ^ (int_bits k - 1))"

definition SetUint :: "kind \<Rightarrow> nat \<Rightarrow> govalue" where
  "SetUint k u = VUint k (u mod 2 ^ int_bits k)"

text \<open>
  \<^verbatim>\<open>convertValue(value, target)\<close> with \<^verbatim>\<open>target = reflect.New(t)\<close>: the value stored
  through the pointer, or the error. A float32 keeps the scanned float64 here (the
  narrowing is not modelled).
\<close>

definition convertValue :: "stdlib \<Rightarrow> string \<Rightarrow> gotype \<Rightarrow> error + govalue" where
  "convertValue L val t =
     (if Kind t = KString then Inr (at_type t (VString val))
      else if Kind t \<in> {KInt, KInt8, KInt16, KInt32, KInt64} then
        (case Sscanf_d_int64 L val of
           Inl m \<Rightarrow> Inl (LibError m)
         | Inr i \<Rightarrow> Inr (at_type t (SetInt (Kind t) i)))
      else if Kind t \<in> {KUint, KUint8, KUint16, KUint32, KUint64} then
        (case Sscanf_d_uint64 L val of
           Inl m \<Rightarrow> Inl (LibError m)
         | Inr u \<Rightarrow> Inr (at_type t (SetUint (Kind t) u)))
      else if Kind t \<in> {KFloat32, KFloat64} then
        (case Sscanf_f L val of
           Inl m \<Rightarrow> Inl (LibError m)
         | Inr f \<Rightarrow> Inr (at_type t (VFloat (Kind t) f)))
      else if Kind t = KBool then
        (case Sscanf_t L val of
           Inl m \<Rightarrow> Inl (LibError m)
         | Inr b \<Rightarrow> Inr (at_type t (VBool b)))
      else Inl (UnsupportedType t))"

section \<open>Tools: \<^verbatim>\<open>handleCallTool\<close>\<close>

definition argName :: "nat \<Rightarrow> string" where
  "argName i = ''arg'' @ show_nat i"

text \<open>
  The argument loop of \<^verbatim>\<open>handleCallTool\<close>, from parameter \<open>i\<close> on: the wire value under
  \<^verbatim>\<open>"arg<i>"\<close> is taken as it is (\<^verbatim>\<open>paramValue = argValue\<close>) and wrapped with
  \<^verbatim>\<open>reflect.ValueOf\<close>.
\<close>

fun toolArgs :: "gotype list \<Rightarrow> nat \<Rightarrow> (string \<rightharpoonup> govalue) option \<Rightarrow> error + rvalue list" where
  "toolArgs [] i A = Inr []"
| "toolArgs (t # ts) i A =
     (case A of
        None \<Rightarrow> Inl ArgumentsNil
      | Some m \<Rightarrow>
          (case m (argName i) of
             None \<Rightarrow> Inl (MissingArgument (argName i))
           | Some v \<Rightarrow>
               (case toolArgs ts (Suc i) A of
                  Inl e \<Rightarrow> Inl e
                | Inr vs \<Rightarrow> Inr (ValueOf v # vs))))"

definition index_panic :: string where
  "index_panic = ''runtime error: index out of range [0] with length 0''"

text \<open>The result processing of \<^verbatim>\<open>handleCallTool\<close>.\<close>

definition toolResult :: "rvalue list \<Rightarrow> CallToolResult outcome" where
  "toolResult results =
     (if length results = 2 then
        (case IsNil (results ! 1) of
           Panic p \<Rightarrow> Panic p
         | Failure e \<Rightarrow> Failure e
         | Success False \<Rightarrow>
             (case as_error (results ! 1) of
                Panic p \<Rightarrow> Panic p
              | Failure e \<Rightarrow> Failure e
              | Success m \<Rightarrow> Success \<lparr> Content = [VTextContent ''text'' m], IsError = True \<rparr>)
         | Success True \<Rightarrow>
             Success \<lparr> Content = [VString (ValueString (results ! 0))], IsError = False \<rparr>)
      else
        (case results of
           [] \<Rightarrow> Panic index_panic
         | r # _ \<Rightarrow> Success \<lparr> Content = [VString (ValueString r)], IsError = False \<rparr>))"

text \<open>\<^verbatim>\<open>reflect.TypeOf(h).NumIn()\<close> and \<^verbatim>\<open>In(i)\<close>: the parameter types, or the panic.\<close>

fun handler_func :: "handler \<Rightarrow> gofunc outcome" where
  "handler_func NilHandler = Panic nil_deref"
| "handler_func (NotFunc t) = Panic (''reflect: NumIn of non-func type '' @ type_string t)"
| "handler_func (Func f) = Success f"

definition callTool :: "Server \<Rightarrow> CallToolRequestParams \<Rightarrow> CallToolResult outcome" where
  "callTool srv p =
     (case tools srv (CallToolRequestParams.Name p) of
        None \<Rightarrow> Failure (ToolNotFound (CallToolRequestParams.Name p))
      | Some tool \<Rightarrow>
          (case handler_func (Tool.Handler tool) of
             Panic m \<Rightarrow> Panic m
           | Failure e \<Rightarrow> Failure e
           | Success f \<Rightarrow>
               (case toolArgs (ins f) 0 (CallToolRequestParams.Arguments p) of
                  Inl e \<Rightarrow> Failure e
                | Inr args \<Rightarrow>
                    (case Call f args of
                       Panic m \<Rightarrow> Panic m
                     | Failure e \<Rightarrow> Failure e
                     | Success results \<Rightarrow> toolResult results))))"

definition respond :: "JSONRPCRequest \<Rightarrow> result \<Rightarrow> JSONRPCResponse" where
  "respond req r =
     \<lparr> JSONRPCResponse.JSONRPC = ''2.0'', ID = JSONRPCRequest.ID req, Result = r \<rparr>"

definition handleCallTool :: "Server \<Rightarrow> JSONRPCRequest \<Rightarrow> JSONRPCResponse outcome" where
  "handleCallTool srv req =
     (case JSONRPCRequest.Params req of
        NotRawMessage \<Rightarrow> Panic type_assert_panic
      | RawMessage raw \<Rightarrow>
          (case as_CallToolRequestParams raw of
             Inl m \<Rightarrow> Failure (Wrap ''invalid tool call params'' (LibError m))
           | Inr p \<Rightarrow>
               (case callTool srv p of
                  Panic m \<Rightarrow> Panic m
                | Failure e \<Rightarrow> Failure e
                | Success r \<Rightarrow> Success (respond req (ResCallTool r)))))"

section \<open>Prompts: \<^verbatim>\<open>parsePromptTemplate\<close> and \<^verbatim>\<open>renderPrompt\<close>\<close>

record PromptArgument =
  Name :: string
  Description :: string
  Required :: "bool option"

definition promptArgument :: "nat \<Rightarrow> gotype \<Rightarrow> PromptArgument" where
  "promptArgument i t =
     \<lparr> PromptArgument.Name = argName i,
       Description = ''Argument of type '' @ type_string t,
       Required = Some True \<rparr>"

text \<open>The \<^verbatim>\<open>arguments\<close> of the template that \<^verbatim>\<open>parsePromptTemplate\<close> returns.\<close>

definition parsePromptTemplate :: "handler \<Rightarrow> PromptArgument list outcome" where
  "parsePromptTemplate h =
     (case h of
        NilHandler \<Rightarrow> Panic nil_deref
      | NotFunc t \<Rightarrow> Failure HandlerNotFunction
      | Func f \<Rightarrow> Success (map (\<lambda>i. promptArgument i (ins f ! i)) [0..<length (ins f)]))"

text \<open>The argument loop of \<^verbatim>\<open>renderPrompt\<close>, from parameter \<open>i\<close> on.\<close>

fun promptArgs :: "stdlib \<Rightarrow> gotype list \<Rightarrow> nat \<Rightarrow> (string \<rightharpoonup> string) \<Rightarrow> error + rvalue list" where
  "promptArgs L [] i A = Inr []"
| "promptArgs L (t # ts) i A =
     (case A (argName i) of
        Some s \<Rightarrow>
          (case convertValue L s t of
             Inl e \<Rightarrow> Inl (Wrap (''invalid argument '' @ argName i) e)
           | Inr v \<Rightarrow>
               (case promptArgs L ts (Suc i) A of
                  Inl e \<Rightarrow> Inl e
                | Inr vs \<Rightarrow> Inr (Value t v # vs)))
      | None \<Rightarrow>
          (case promptArgs L ts (Suc i) A of
             Inl e \<Rightarrow> Inl e
           | Inr vs \<Rightarrow> Inr (Zero t # vs)))"

text \<open>\<^verbatim>\<open>fmt.Sprintf("%T", v)\<close>.\<close>

definition type_text :: "govalue \<Rightarrow> string" where
  "type_text v = (case dyn_type v of None \<Rightarrow> ''<nil>'' | Some t \<Rightarrow> type_string t)"

text \<open>The type switch of \<^verbatim>\<open>renderPrompt\<close> on \<^verbatim>\<open>results[0].Interface()\<close>.\<close>

fun promptMessages :: "govalue \<Rightarrow> (string \<times> govalue) list outcome" where
  "promptMessages (VString s) = Success [(''assistant'', VTextContent ''text'' s)]"
| "promptMessages (VMessages ms) = Success ms"
| "promptMessages (VZero t) =
     (if t = t_PromptMessages then Success [] else Failure (InvalidPromptReturn (type_string t)))"
| "promptMessages v = Failure (InvalidPromptReturn (type_text v))"

definition renderPrompt ::
  "stdlib \<Rightarrow> Prompt \<Rightarrow> (string \<rightharpoonup> string) \<Rightarrow> (string \<times> govalue) list outcome" where
  "renderPrompt L prompt A =
     (case handler_func (Prompt.Handler prompt) of
        Panic m \<Rightarrow> Panic m
      | Failure e \<Rightarrow> Failure e
      | Success f \<Rightarrow>
          (case promptArgs L (ins f) 0 A of
             Inl e \<Rightarrow> Failure e
           | Inr handlerArgs \<Rightarrow>
               (case Call f handlerArgs of
                  Panic m \<Rightarrow> Panic m
                | Failure e \<Rightarrow> Failure e
                | Success results \<Rightarrow>
                    (case results of
                       [] \<Rightarrow> Panic index_panic
                     | r # _ \<Rightarrow> promptMessages (Interface r)))))"

definition handleGetPrompt :: "stdlib \<Rightarrow> Server \<Rightarrow> JSONRPCRequest \<Rightarrow> JSONRPCResponse outcome" where
  "handleGetPrompt L srv req =
     (case JSONRPCRequest.Params req of
        NotRawMessage \<Rightarrow> Panic type_assert_panic
      | RawMessage raw \<Rightarrow>
          (case as_GetPromptRequestParams raw of
             Inl m \<Rightarrow> Failure (Wrap ''invalid prompt get params'' (LibError m))
           | Inr p \<Rightarrow>
               (case prompts srv (GetPromptRequestParams.Name p) of
                  None \<Rightarrow> Failure (PromptNotFound (GetPromptRequestParams.Name p))
                | Some prompt \<Rightarrow>
                    (case renderPrompt L prompt (GetPromptRequestParams.Arguments p) of
                       Panic m \<Rightarrow> Panic m
                     | Failure e \<Rightarrow> Failure (Wrap ''failed to render prompt'' e)
                     | Success ms \<Rightarrow>
                         Success (respond req (ResGetPrompt (Prompt.Description prompt) ms))))))"

section \<open>Resources: \<^verbatim>\<open>parseResourcePattern\<close>, \<^verbatim>\<open>matchResource\<close>, \<^verbatim>\<open>readResource\<close>\<close>

text \<open>
  \<^verbatim>\<open>paramRegex.FindAllStringSubmatch(pattern, -1)\<close> for the fixed expression
  \<^verbatim>\<open>\{([^}]+)\}\<close>: the names between braces, left to right. A match starts at a
  \<^verbatim>\<open>{\<close> and ends at the next \<^verbatim>\<open>}\<close>, with at least one character between them; the
  second argument is the name read so far after an open brace.
\<close>

fun placeholders :: "string \<Rightarrow> string option \<Rightarrow> string list" where
  "placeholders [] cur = []"
| "placeholders (c # cs) None =
     (if c = CHR ''{'' then placeholders cs (Some []) else placeholders cs None)"
| "placeholders (c # cs) (Some n) =
     (if c = CHR ''}''
      then (if n = [] then placeholders cs None else n # placeholders cs None)
      else placeholders cs (Some (n @ [c])))"

text \<open>\<^verbatim>\<open>strings.Replace(s, old, new, 1)\<close>.\<close>

fun replace_first :: "string \<Rightarrow> string \<Rightarrow> string \<Rightarrow> string" where
  "replace_first [] old new = (if old = [] then new else [])"
| "replace_first (c # cs) old new =
     (if take (length old) (c # cs) = old then new @ drop (length old) (c # cs)
      else c # replace_first cs old new)"

record resourcePattern =
  pattern :: string
  regex :: "string \<Rightarrow> string list option"
  paramNames :: "string list"
  paramTypes :: "gotype list"
  handlerType :: gofunc

text \<open>
  The loop of \<^verbatim>\<open>parseResourcePattern\<close> over the matches, from match \<open>i\<close> on, with the
  names, the types and the expression built so far.
\<close>

fun patternLoop ::
  "gofunc \<Rightarrow> string \<Rightarrow> string list \<Rightarrow> nat \<Rightarrow> string list \<Rightarrow> gotype list \<Rightarrow> string
   \<Rightarrow> error + (string list \<times> gotype list \<times> string)" where
  "patternLoop f pat [] i names types regexStr = Inr (names, types, regexStr)"
| "patternLoop f pat (n # ns) i names types regexStr =
     (if i \<ge> length (ins f) then Inl (NotEnoughParameters pat)
      else patternLoop f pat ns (Suc i) (names @ [n]) (types @ [ins f ! i])
             (replace_first regexStr (''{'' @ n @ ''}'') ''([^/]+)''))"

definition parseResourcePattern :: "stdlib \<Rightarrow> string \<Rightarrow> handler \<Rightarrow> resourcePattern outcome" where
  "parseResourcePattern L pat h =
     (case h of
        NilHandler \<Rightarrow> Panic nil_deref
      | NotFunc t \<Rightarrow> Failure HandlerNotFunction
      | Func f \<Rightarrow>
          (case patternLoop f pat (placeholders pat None) 0 [] [] pat of
             Inl e \<Rightarrow> Failure e
           | Inr (names, types, regexStr) \<Rightarrow>
               (case regexp_Compile L (''^'' @ regexStr @ ''$'') of
                  Inl m \<Rightarrow> Failure (Wrap (''invalid pattern '' @ pat) (LibError m))
                | Inr re \<Rightarrow>
                    Success \<lparr> pattern = pat, regex = re, paramNames = names,
                              paramTypes = types, handlerType = f \<rparr>)))"

definition slice_panic :: string where
  "slice_panic = ''runtime error: index out of range''"

text \<open>
  The parameter loop of \<^verbatim>\<open>matchResource\<close>, from placeholder \<open>i\<close> on: placeholder \<open>i\<close>
  takes \<^verbatim>\<open>matches[i+1]\<close>, converted to its type, and is stored under its name.
\<close>

fun extractParams ::
  "stdlib \<Rightarrow> (string \<times> gotype) list \<Rightarrow> string list \<Rightarrow> nat \<Rightarrow> (string \<rightharpoonup> govalue)
   \<Rightarrow> (string \<rightharpoonup> govalue) outcome" where
  "extractParams L [] ms i acc = Success acc"
| "extractParams L ((n, t) # nts) ms i acc =
     (if Suc i \<ge> length ms then Panic slice_panic
      else case convertValue L (ms ! Suc i) t of
             Inl e \<Rightarrow> Failure (Wrap (''invalid parameter '' @ n) e)
           | Inr v \<Rightarrow> extractParams L nts ms (Suc i) (acc(n \<mapsto> v)))"

text \<open>
  The loop of \<^verbatim>\<open>matchResource\<close> over the registered patterns. Go ranges over the map
  in an order of its choosing: the order is the list \<open>ks\<close> of keys. The expression is
  applied to the path of the parsed URI.
\<close>

fun matchLoop ::
  "stdlib \<Rightarrow> (string \<rightharpoonup> Resource) \<Rightarrow> string list \<Rightarrow> string \<Rightarrow> string
   \<Rightarrow> (Resource \<times> (string \<rightharpoonup> govalue)) outcome" where
  "matchLoop L rs [] path uri = Failure (NoMatchingResource uri)"
| "matchLoop L rs (k # ks) path uri =
     (case rs k of
        None \<Rightarrow> matchLoop L rs ks path uri
      | Some r \<Rightarrow>
          (case parseResourcePattern L k (Resource.Handler r) of
             Panic m \<Rightarrow> Panic m
           | Failure e \<Rightarrow> matchLoop L rs ks path uri
           | Success rp \<Rightarrow>
               (case regex rp path of
                  None \<Rightarrow> matchLoop L rs ks path uri
                | Some ms \<Rightarrow>
                    (case extractParams L (zip (paramNames rp) (paramTypes rp)) ms 0 Map.empty of
                       Panic m \<Rightarrow> Panic m
                     | Failure e \<Rightarrow> Failure e
                     | Success ps \<Rightarrow> Success (r, ps)))))"

definition matchResource ::
  "stdlib \<Rightarrow> Server \<Rightarrow> string list \<Rightarrow> string \<Rightarrow> (Resource \<times> (string \<rightharpoonup> govalue)) outcome" where
  "matchResource L srv ks uri =
     (case url_Parse L uri of
        Inl m \<Rightarrow> Failure (Wrap ''invalid URI'' (LibError m))
      | Inr path \<Rightarrow> matchLoop L (resources srv) ks path uri)"

definition paramName :: "nat \<Rightarrow> string" where
  "paramName i = ''param'' @ show_nat i"

text \<open>
  The argument loop of \<^verbatim>\<open>readResource\<close>, from parameter \<open>i\<close> on: the value stored under
  \<^verbatim>\<open>"param<i>"\<close>, or the zero value of the parameter's type.
\<close>

fun resourceArgs :: "gotype list \<Rightarrow> nat \<Rightarrow> (string \<rightharpoonup> govalue) \<Rightarrow> rvalue list" where
  "resourceArgs [] i ps = []"
| "resourceArgs (t # ts) i ps =
     (case ps (paramName i) of
        Some v \<Rightarrow> ValueOf v
      | None \<Rightarrow> Zero t) # resourceArgs ts (Suc i) ps"

text \<open>The result processing of \<^verbatim>\<open>readResource\<close>.\<close>

definition resourceContents :: "rvalue list \<Rightarrow> govalue list outcome" where
  "resourceContents results =
     (if length results = 2 then
        (case IsNil (results ! 1) of
           Panic p \<Rightarrow> Panic p
         | Failure e \<Rightarrow> Failure e
         | Success False \<Rightarrow>
             (case as_error (results ! 1) of
                Panic p \<Rightarrow> Panic p
              | Failure e \<Rightarrow> Failure e
              | Success m \<Rightarrow> Failure (HandlerError m))
         | Success True \<Rightarrow> Success [Interface (results ! 0)])
      else
        (case results of
           [] \<Rightarrow> Panic index_panic
         | r # _ \<Rightarrow> Success [Interface r]))"

definition readResource :: "Resource \<Rightarrow> (string \<rightharpoonup> govalue) \<Rightarrow> govalue list outcome" where
  "readResource resource ps =
     (case handler_func (Resource.Handler resource) of
        Panic m \<Rightarrow> Panic m
      | Failure e \<Rightarrow> Failure e
      | Success f \<Rightarrow>
          (case Call f (resourceArgs (ins f) 0 ps) of
             Panic m \<Rightarrow> Panic m
           | Failure e \<Rightarrow> Failure e
           | Success results \<Rightarrow> resourceContents results))"

definition handleReadResource ::
  "stdlib \<Rightarrow> Server \<Rightarrow> string list \<Rightarrow> JSONRPCRequest \<Rightarrow> JSONRPCResponse outcome" where
  "handleReadResource L srv ks req =
     (case JSONRPCRequest.Params req of
        NotRawMessage \<Rightarrow> Panic type_assert_panic
      | RawMessage raw \<Rightarrow>
          (case as_ReadResourceRequestParams raw of
             Inl m \<Rightarrow> Failure (Wrap ''invalid resource read params'' (LibError m))
           | Inr p \<Rightarrow>
               (case URI p of
                  None \<Rightarrow> Panic nil_deref
                | Some uri \<Rightarrow>
                    (case matchResource L srv ks uri of
                       Panic m \<Rightarrow> Panic m
                     | Failure e \<Rightarrow> Failure (Wrap ''failed to match resource'' e)
                     | Success (resource, resourceParams) \<Rightarrow>
                         (case readResource resource resourceParams of
                            Panic m \<Rightarrow> Panic m
                          | Failure e \<Rightarrow> Failure (Wrap ''failed to read resource'' e)
                          | Success contents \<Rightarrow>
                              Success (respond req (ResReadResource contents)))))))"

section \<open>The session: \<^verbatim>\<open>HandleRequest\<close> and \<^verbatim>\<open>HandleNotification\<close>\<close>

definition handleInitialize ::
  "Server \<Rightarrow> Session \<Rightarrow> JSONRPCRequest \<Rightarrow> Session \<times> JSONRPCResponse outcome" where
  "handleInitialize srv s req =
     (case JSONRPCRequest.Params req of
        NotRawMessage \<Rightarrow> (s, Panic type_assert_panic)
      | RawMessage raw \<Rightarrow>
          (case as_InitializeRequestParams raw of
             Inl m \<Rightarrow> (s, Failure (Wrap ''invalid initialize params'' (LibError m)))
           | Inr p \<Rightarrow>
               (s\<lparr> Session.capabilities := InitializeRequestParams.Capabilities p,
                   clientInfo := ClientInfo p,
                   initialized := True \<rparr>,
                Success (respond req (ResInitialize
                  \<lparr> InitializeResult.ProtocolVersion = LatestProtocolVersion,
                    Capabilities = Server.capabilities srv,
                    ServerInfo = info srv \<rparr>)))))"

definition handlePing :: "JSONRPCRequest \<Rightarrow> JSONRPCResponse outcome" where
  "handlePing req = Success (respond req ResEmpty)"

definition handleListTools :: "Server \<Rightarrow> JSONRPCRequest \<Rightarrow> JSONRPCResponse outcome" where
  "handleListTools srv req =
     Success (respond req (ResListTools
       {(n, d). \<exists>t. tools srv n = Some t \<and> d = Tool.Description t}))"

definition handleListResources :: "Server \<Rightarrow> JSONRPCRequest \<Rightarrow> JSONRPCResponse outcome" where
  "handleListResources srv req =
     Success (respond req (ResListResources
       {(u, n, d). \<exists>k r. resources srv k = Some r \<and> u = Pattern r \<and> n = Pattern r
                          \<and> d = Resource.Description r}))"

definition handleListPrompts :: "Server \<Rightarrow> JSONRPCRequest \<Rightarrow> JSONRPCResponse outcome" where
  "handleListPrompts srv req =
     Success (respond req (ResListPrompts
       {(n, d). \<exists>p. prompts srv n = Some p \<and> d = Prompt.Description p}))"

text \<open>
  \<^verbatim>\<open>HandleRequest\<close>: the session after the request and what the call returned. The
  server is the one the session points to; \<open>ks\<close> is the order in which
  \<^verbatim>\<open>matchResource\<close> ranges over the resources.
\<close>

definition HandleRequest ::
  "stdlib \<Rightarrow> Server \<Rightarrow> string list \<Rightarrow> Session \<Rightarrow> JSONRPCRequest
   \<Rightarrow> Session \<times> JSONRPCResponse outcome" where
  "HandleRequest L srv ks s req =
     (if JSONRPCRequest.Method req = ''initialize'' then
        (if initialized s then (s, Failure AlreadyInitialized)
         else handleInitialize srv s req)
      else if \<not> initialized s then (s, Failure NotInitialized)
      else if JSONRPCRequest.Method req = ''ping'' then (s, handlePing req)
      else if JSONRPCRequest.Method req = ''tools/list'' then (s, handleListTools srv req)
      else if JSONRPCRequest.Method req = ''tools/call'' then (s, handleCallTool srv req)
      else if JSONRPCRequest.Method req = ''resources/list'' then (s, handleListResources srv req)
      else if JSONRPCRequest.Method req = ''resources/read''
        then (s, handleReadResource L srv ks req)
      else if JSONRPCRequest.Method req = ''prompts/list'' then (s, handleListPrompts srv req)
      else if JSONRPCRequest.Method req = ''prompts/get'' then (s, handleGetPrompt L srv req)
      else (s, Failure (UnknownMethod (JSONRPCRequest.Method req))))"

definition handleCancelled :: "JSONRPCNotification \<Rightarrow> unit outcome" where
  "handleCancelled notif =
     (case JSONRPCNotification.Params notif of
        NotRawMessage \<Rightarrow> Panic type_assert_panic
      | RawMessage raw \<Rightarrow>
          (case as_CancelledNotificationParams raw of
             Inl m \<Rightarrow> Failure (Wrap ''invalid cancellation params'' (LibError m))
           | Inr p \<Rightarrow> Success ()))"

definition HandleNotification :: "Session \<Rightarrow> JSONRPCNotification \<Rightarrow> unit outcome" where
  "HandleNotification s notif =
     (if \<not> initialized s \<and> JSONRPCNotification.Method notif \<noteq> ''notifications/initialized''
        then Failure NotInitialized
      else if JSONRPCNotification.Method notif = ''notifications/initialized'' then Success ()
      else if JSONRPCNotification.Method notif = ''notifications/cancelled''
        then handleCancelled notif
      else Failure (UnknownNotification (JSONRPCNotification.Method notif)))"

section \<open>Transports: one inbound unit\<close>

text \<open>
  Each transport decodes the unit into an envelope with \<^verbatim>\<open>encoding/json\<close>; the unit is
  given here by what the decoder returned: its error, or the envelope. \<open>msg_ID\<close> is the
  \<^verbatim>\<open>*protocol.RequestID\<close>: \<open>None\<close> for nil. What the transport writes back is a list of
  frames.
\<close>

record envelope =
  msg_JSONRPC :: string
  msg_ID :: "govalue option"
  msg_Method :: string
  msg_Params :: raw_message

datatype unit_in = DecodeError string | Decoded envelope

datatype frame = ResponseFrame JSONRPCResponse | ErrorFrame JSONRPCError

text \<open>\<^verbatim>\<open>writeError(id, code, message, err)\<close> and \<^verbatim>\<open>writeErrorWithID\<close>: the frame written.\<close>

definition writeError :: "govalue option \<Rightarrow> int \<Rightarrow> string \<Rightarrow> string \<Rightarrow> frame" where
  "writeError rid code message err =
     ErrorFrame \<lparr> JSONRPCError.JSONRPC = ''2.0'',
                  ID = (case rid of None \<Rightarrow> VNil | Some i \<Rightarrow> i),
                  Error = \<lparr> Code = code, Message = message, Data = err \<rparr> \<rparr>"

definition writeErrorWithID :: "govalue \<Rightarrow> int \<Rightarrow> string \<Rightarrow> string \<Rightarrow> frame" where
  "writeErrorWithID rid code message err =
     ErrorFrame \<lparr> JSONRPCError.JSONRPC = ''2.0'', ID = rid,
                  Error = \<lparr> Code = code, Message = message, Data = err \<rparr> \<rparr>"

text \<open>
  The part the three transports share: a decoded envelope with an id is a request, its
  error is written with code -32603; one without is a notification, and nothing is
  written for it. The result is the session and the frames, or the panic.
\<close>

definition dispatch ::
  "stdlib \<Rightarrow> Server \<Rightarrow> string list \<Rightarrow> Session \<Rightarrow> envelope \<Rightarrow> (Session \<times> frame list) outcome" where
  "dispatch L srv ks s msg =
     (case msg_ID msg of
        Some rid \<Rightarrow>
          (let req = \<lparr> JSONRPCRequest.JSONRPC = msg_JSONRPC msg, ID = rid,
                       Method = msg_Method msg, Params = RawMessage (msg_Params msg) \<rparr>
           in case HandleRequest L srv ks s req of
                (s', Panic m) \<Rightarrow> Panic m
              | (s', Failure e) \<Rightarrow>
                  Success (s', [writeErrorWithID rid (- 32603) ''Internal error'' (error_text e)])
              | (s', Success resp) \<Rightarrow> Success (s', [ResponseFrame resp]))
      | None \<Rightarrow>
          (case HandleNotification s
                  \<lparr> JSONRPCNotification.JSONRPC = msg_JSONRPC msg,
                    Method = msg_Method msg, Params = RawMessage (msg_Params msg) \<rparr> of
             Panic m \<Rightarrow> Panic m
           | _ \<Rightarrow> Success (s, [])))"

text \<open>One line read by \<^verbatim>\<open>StdioTransport.Start\<close>.\<close>

definition stdio_unit ::
  "stdlib \<Rightarrow> Server \<Rightarrow> string list \<Rightarrow> Session \<Rightarrow> unit_in \<Rightarrow> (Session \<times> frame list) outcome" where
  "stdio_unit L srv ks s u =
     (case u of
        DecodeError err \<Rightarrow> Success (s, [writeError None 0 ''Parse error'' err])
      | Decoded msg \<Rightarrow> dispatch L srv ks s msg)"

text \<open>One POST body handled by \<^verbatim>\<open>SSETransport.handleRequest\<close>.\<close>

definition sse_unit ::
  "stdlib \<Rightarrow> Server \<Rightarrow> string list \<Rightarrow> Session \<Rightarrow> unit_in \<Rightarrow> (Session \<times> frame list) outcome" where
  "sse_unit L srv ks s u =
     (case u of
        DecodeError err \<Rightarrow> Success (s, [writeError None (- 32700) ''Parse error'' err])
      | Decoded msg \<Rightarrow> dispatch L srv ks s msg)"

text \<open>One text message read by \<^verbatim>\<open>WebSocketTransport.handleWebSocket\<close>.\<close>

definition websocket_unit ::
  "stdlib \<Rightarrow> Server \<Rightarrow> string list \<Rightarrow> Session \<Rightarrow> unit_in \<Rightarrow> (Session \<times> frame list) outcome" where
  "websocket_unit L srv ks s u =
     (case u of
        DecodeError err \<Rightarrow> Success (s, [writeError None (- 32700) ''Parse error'' err])
      | Decoded msg \<Rightarrow> dispatch L srv ks s msg)"

section \<open>A reference instance of the standard library\<close>

text \<open>
  For evaluation at concrete inputs, \<open>reference_lib\<close> follows the Go standard library on
  the inputs described with each function below, and answers with an error everywhere
  else. The general theorems do not use it: they hold for every library.
\<close>

definition is_letter :: "char \<Rightarrow> bool" where
  "is_letter c = (c \<in> set ''abcdefghijklmnopqrstuvwxyzABCDEFGHIJKLMNOPQRSTUVWXYZ'')"

definition is_digit :: "char \<Rightarrow> bool" where
  "is_digit c = (c \<in> set ''0123456789'')"

definition plain_char :: "char \<Rightarrow> bool" where
  "plain_char c = (is_letter c \<or> is_digit c \<or> c \<in> set ''/.-_'')"

definition after_authority :: "string \<Rightarrow> string" where
  "after_authority rest = dropWhile (\<lambda>c. c \<noteq> CHR ''/'') rest"

text \<open>
  The \<^verbatim>\<open>Path\<close> of \<^verbatim>\<open>url.Parse(u)\<close> for two shapes of \<open>u\<close>. Without a colon, over
  letters, digits and \<^verbatim>\<open>/ . - _\<close>: there is no scheme, and the path is \<open>u\<close> itself unless
  \<open>u\<close> starts with exactly two slashes, when the authority up to the next slash is cut
  off. As \<^verbatim>\<open>scheme://rest\<close> with a scheme of letters and \<open>rest\<close> over the same
  characters: the authority is \<open>rest\<close> up to its first slash and the path is what follows.
\<close>

definition ref_url_Parse :: "string \<Rightarrow> string + string" where
  "ref_url_Parse u =
     (if list_all plain_char u then
        (if take 2 u = ''//'' \<and> take 3 u \<noteq> ''///'' then Inr (after_authority (drop 2 u))
         else Inr u)
      else
        (let scheme = takeWhile is_letter u; rest = dropWhile is_letter u in
         if scheme \<noteq> [] \<and> take 3 rest = ''://'' \<and> list_all plain_char (drop 3 rest)
         then Inr (after_authority (drop 3 rest))
         else Inl ''url outside the reference instance''))"

text \<open>
  Regular expressions of the shape \<^verbatim>\<open>^ ... $\<close> whose body is a sequence of literal
  characters (letters, digits and \<^verbatim>\<open>/ : - _\<close>) and groups \<^verbatim>\<open>([^/]+)\<close>. A group takes
  the longest run of characters other than \<^verbatim>\<open>/\<close> with which the rest still matches
  (the preference of a greedy \<^verbatim>\<open>+\<close>), and at least one character.
\<close>

datatype re_token = Lit char | Group

definition re_literal :: "char \<Rightarrow> bool" where
  "re_literal c = (is_letter c \<or> is_digit c \<or> c \<in> set ''/:-_'')"

fun re_tokens :: "string \<Rightarrow> re_token list option" where
  "re_tokens [] = Some []"
| "re_tokens (c # cs) =
     (if take 7 (c # cs) = ''([^/]+)'' then map_option (Cons Group) (re_tokens (drop 6 cs))
      else if re_literal c then map_option (Cons (Lit c)) (re_tokens cs)
      else None)"

fun re_match :: "re_token list \<Rightarrow> string \<Rightarrow> string list option"
  and group_try :: "re_token list \<Rightarrow> string \<Rightarrow> nat \<Rightarrow> string list option" where
  "re_match [] s = (if s = [] then Some [] else None)"
| "re_match (Lit c # ts) s =
     (case s of [] \<Rightarrow> None | d # ds \<Rightarrow> if c = d then re_match ts ds else None)"
| "re_match (Group # ts) s = group_try ts s (length (takeWhile (\<lambda>c. c \<noteq> CHR ''/'') s))"
| "group_try ts s 0 = None"
| "group_try ts s (Suc n) =
     (case re_match ts (drop (Suc n) s) of
        Some caps \<Rightarrow> Some (take (Suc n) s # caps)
      | None \<Rightarrow> group_try ts s n)"

definition FindStringSubmatch :: "re_token list \<Rightarrow> string \<Rightarrow> string list option" where
  "FindStringSubmatch ts s = map_option (Cons s) (re_match ts s)"

definition ref_regexp_Compile :: "string \<Rightarrow> string + (string \<Rightarrow> string list option)" where
  "ref_regexp_Compile src =
     (if 2 \<le> length src \<and> hd src = CHR ''^'' \<and> last src = CHR ''$'' then
        (case re_tokens (butlast (tl src)) of
           Some ts \<Rightarrow> Inr (FindStringSubmatch ts)
         | None \<Rightarrow> Inl ''expression outside the reference instance'')
      else Inl ''expression outside the reference instance'')"

text \<open>
  The scanners, on whole tokens: an optional sign and decimal digits in range for
  \<^verbatim>\<open>%d\<close>, decimal digits below \<open>2 ^ 53\<close> for \<^verbatim>\<open>%f\<close> (the float64 of that integer, by
  its bits), \<^verbatim>\<open>true\<close> and \<^verbatim>\<open>false\<close> for \<^verbatim>\<open>%t\<close>.
\<close>

fun digit_value :: "char \<Rightarrow> nat" where
  "digit_value c = length (takeWhile (\<lambda>d. d \<noteq> c) ''0123456789'')"

fun decimal :: "nat \<Rightarrow> string \<Rightarrow> nat" where
  "decimal acc [] = acc"
| "decimal acc (c # cs) = decimal (10 * acc + digit_value c) cs"

definition digits_value :: "string \<Rightarrow> nat option" where
  "digits_value s = (if s \<noteq> [] \<and> list_all is_digit s then Some (decimal 0 s) else None)"

definition ref_Sscanf_d_uint64 :: "string \<Rightarrow> string + nat" where
  "ref_Sscanf_d_uint64 s =
     (case digits_value s of
        Some n \<Rightarrow> if n < 2 ^ 64 then Inr n else Inl ''value out of range''
      | None \<Rightarrow> Inl ''expected integer'')"

definition ref_Sscanf_d_int64 :: "string \<Rightarrow> string + int" where
  "ref_Sscanf_d_int64 s =
     (case s of
        [] \<Rightarrow> Inl ''unexpected EOF''
      | c # cs \<Rightarrow>
          if c = CHR ''-'' then
            (case digits_value cs of
               Some n \<Rightarrow> if n \<le> 2 ^ 63 then Inr (- int n) else Inl ''value out of range''
             | None \<Rightarrow> Inl ''expected integer'')
          else
            (case digits_value (if c = CHR ''+'' then cs else c # cs) of
               Some n \<Rightarrow> if n < 2 ^ 63 then Inr (int n) else Inl ''value out of range''
             | None \<Rightarrow> Inl ''expected integer''))"

function bit_length :: "nat \<Rightarrow> nat" where
  "bit_length n = (if n = 0 then 0 else Suc (bit_length (n div 2)))"
  by pat_completeness auto
termination
  by (relation "measure id") auto

declare bit_length.simps [simp del]

definition float64_of_nat :: "nat \<Rightarrow> 64 word" where
  "float64_of_nat n =
     (if n = 0 then 0
      else let e = bit_length n - 1
           in word_of_nat ((e + 1023) * 2 ^ 52 + (n * 2 ^ (52 - e) - 2 ^ 52)))"

definition ref_Sscanf_f :: "string \<Rightarrow> string + 64 word" where
  "ref_Sscanf_f s =
     (case digits_value s of
        Some n \<Rightarrow> if n < 2 ^ 53 then Inr (float64_of_nat n)
                  else Inl ''number outside the reference instance''
      | None \<Rightarrow> Inl ''number outside the reference instance'')"

definition ref_Sscanf_t :: "string \<Rightarrow> string + bool" where
  "ref_Sscanf_t s =
     (if s = ''true'' then Inr True
      else if s = ''false'' then Inr False
      else Inl ''boolean outside the reference instance'')"

definition reference_lib :: stdlib where
  "reference_lib =
     \<lparr> url_Parse = ref_url_Parse,
       regexp_Compile = ref_regexp_Compile,
       Sscanf_d_int64 = ref_Sscanf_d_int64,
       Sscanf_d_uint64 = ref_Sscanf_d_uint64,
       Sscanf_f = ref_Sscanf_f,
       Sscanf_t = ref_Sscanf_t \<rparr>"

section \<open>Handlers and servers of the repository's tests, documentation and examples\<close>

text \<open>A Go function \<^verbatim>\<open>func(x string) string\<close> with body \<open>g\<close>.\<close>

definition string_func :: "(string \<Rightarrow> string) \<Rightarrow> gofunc" where
  "string_func g =
     \<lparr> ins = [basic KString], outs = [basic KString],
       run = (\<lambda>args. case args of [VString x] \<Rightarrow> [VString (g x)] | _ \<Rightarrow> []) \<rparr>"

text \<open>
  \<^verbatim>\<open>server.AddTool("add", func(a, b int) int { return a + b }, "Add two numbers")\<close>
  (\<^verbatim>\<open>server_test.go\<close>).
\<close>

definition test_add :: gofunc where
  "test_add =
     \<lparr> ins = [basic KInt, basic KInt], outs = [basic KInt],
       run = (\<lambda>args. case args of
                        [VInt KInt a, VInt KInt b] \<Rightarrow> [SetInt KInt (a + b)]
                      | _ \<Rightarrow> []) \<rparr>"

definition add_server :: Server where
  "add_server = fst (AddTool (NewServer ''test'') ''add'' (Func test_add) ''Add two numbers'')"

text \<open>
  The three registrations that \<^verbatim>\<open>server_test.go\<close> makes (there on package
  \<^verbatim>\<open>mcp\<close>), made on one server of package \<^verbatim>\<open>server\<close>: the tool \<^verbatim>\<open>add\<close>, the
  resource \<^verbatim>\<open>data://{id}\<close> with \<^verbatim>\<open>func(id string) string { return id }\<close> and the prompt
  \<^verbatim>\<open>greet\<close> with \<^verbatim>\<open>func(name string) string { return "Hello, " + name }\<close>.
\<close>

definition test_server :: Server where
  "test_server =
     fst (AddPrompt
       (fst (AddResource add_server ''data://{id}'' (Func (string_func (\<lambda>x. x))) ''Get data''))
       ''greet'' (Func (string_func (\<lambda>x. ''Hello, '' @ x))) ''Greeting prompt'')"

text \<open>
  \<^verbatim>\<open>srv.AddTool("greet", func(name string) string { return "Hello, " + name + "!" },
  "Greet a person")\<close> (the README's quick start).
\<close>

definition greet_server :: Server where
  "greet_server =
     fst (AddTool (NewServer ''Example Server'') ''greet''
            (Func (string_func (\<lambda>x. ''Hello, '' @ x @ ''!''))) ''Greet a person'')"

text \<open>
  \<^verbatim>\<open>server.AddTool("add", func(a, b float64) float64 { return a + b }, ...)\<close>
  (examples/echo). The sum of two float64 is not modelled: \<open>body\<close> is any function giving
  the result.
\<close>

definition echo_add :: "(govalue list \<Rightarrow> govalue) \<Rightarrow> gofunc" where
  "echo_add body =
     \<lparr> ins = [basic KFloat64, basic KFloat64], outs = [basic KFloat64],
       run = (\<lambda>args. [body args]) \<rparr>"

definition echo_server :: "(govalue list \<Rightarrow> govalue) \<Rightarrow> Server" where
  "echo_server body =
     fst (AddTool (NewServer ''Calculator'') ''add'' (Func (echo_add body)) ''Add two numbers'')"

text \<open>
  The resource \<^verbatim>\<open>env/{name}\<close> with
  \<^verbatim>\<open>func(name string) string { return os.Getenv(name) }\<close> (examples/fastmcp/desktop);
  \<open>getenv\<close> is the environment.
\<close>

definition env_server :: "(string \<Rightarrow> string) \<Rightarrow> Server" where
  "env_server getenv =
     fst (AddResource (NewServer ''Desktop Integration Demo'') ''env/{name}''
            (Func (string_func getenv)) ''Get environment variable value'')"

text \<open>
  \<^verbatim>\<open>fs.srv.AddResource("file://{path}", fs.readFile, "Read file contents")\<close> of the file
  server example, with \<^verbatim>\<open>readFile(path string) (string, error)\<close>; \<open>files\<close> is the
  content of the served directory.
\<close>

definition readFile :: "(string \<rightharpoonup> string) \<Rightarrow> gofunc" where
  "readFile files =
     \<lparr> ins = [basic KString], outs = [basic KString, t_error],
       run = (\<lambda>args. case args of
                [VString p] \<Rightarrow>
                  (case files p of
                     Some c \<Rightarrow> [VString c, VNil]
                   | None \<Rightarrow> [VString [], VError (''open '' @ p @ '': no such file or directory'')])
              | _ \<Rightarrow> []) \<rparr>"

definition file_server :: "(string \<rightharpoonup> string) \<Rightarrow> Server" where
  "file_server files =
     fst (AddResource (NewServer ''File Server'') ''file://{path}''
            (Func (readFile files)) ''Read file contents'')"

text \<open>
  \<^verbatim>\<open>srv.AddPrompt("confirm", func(action string) string {
  return fmt.Sprintf("Are you sure you want to %s?", action) }, "Confirmation prompt")\<close>
  (the README), and the same function registered as a tool.
\<close>

definition confirm :: gofunc where
  "confirm = string_func (\<lambda>action. ''Are you sure you want to '' @ action @ ''?'')"

definition confirm_server :: Server where
  "confirm_server =
     fst (AddTool
       (fst (AddPrompt (NewServer ''My Server'') ''confirm'' (Func confirm) ''Confirmation prompt''))
       ''confirm'' (Func confirm) ''Confirmation tool'')"

text \<open>
  A \<^verbatim>\<open>prompts/get\<close> request with the params \<^verbatim>\<open>{"name": "confirm"}\<close>: no
  arguments are given.
\<close>

definition confirm_params :: raw_message where
  "confirm_params =
     \<lparr> as_InitializeRequestParams = Inr
         \<lparr> InitializeRequestParams.ProtocolVersion = [],
           Capabilities = \<lparr> ClientCapabilities.Experimental = [], Sampling = None, Roots = None \<rparr>,
           ClientInfo = \<lparr> Implementation.Name = [], Version = [] \<rparr> \<rparr>,
       as_CallToolRequestParams = Inr \<lparr> CallToolRequestParams.Name = ''confirm'', Arguments = None \<rparr>,
       as_ReadResourceRequestParams = Inr \<lparr> URI = None \<rparr>,
       as_GetPromptRequestParams =
         Inr \<lparr> GetPromptRequestParams.Name = ''confirm'', Arguments = Map.empty \<rparr>,
       as_CancelledNotificationParams = Inr \<lparr> RequestID = VNil, Reason = [] \<rparr> \<rparr>"

definition confirm_request :: JSONRPCRequest where
  "confirm_request =
     \<lparr> JSONRPCRequest.JSONRPC = ''2.0'', ID = VString ''p1'',
       Method = ''prompts/get'', Params = RawMessage confirm_params \<rparr>"

text \<open>
  The params \<^verbatim>\<open>{"protocolVersion": "2024-11-05", "capabilities": {},
  "clientInfo": {"name": "client", "version": "1.0"}}\<close> of an initialize request, by
  their decodings: the other parameter structs have none of these fields and stay zero.
\<close>

definition initialize_params :: raw_message where
  "initialize_params =
     \<lparr> as_InitializeRequestParams = Inr
         \<lparr> InitializeRequestParams.ProtocolVersion = ''2024-11-05'',
           Capabilities = \<lparr> ClientCapabilities.Experimental = [], Sampling = None, Roots = None \<rparr>,
           ClientInfo = \<lparr> Implementation.Name = ''client'', Version = ''1.0'' \<rparr> \<rparr>,
       as_CallToolRequestParams = Inr \<lparr> CallToolRequestParams.Name = [], Arguments = None \<rparr>,
       as_ReadResourceRequestParams = Inr \<lparr> URI = None \<rparr>,
       as_GetPromptRequestParams = Inr \<lparr> GetPromptRequestParams.Name = [], Arguments = Map.empty \<rparr>,
       as_CancelledNotificationParams = Inr \<lparr> RequestID = VNil, Reason = [] \<rparr> \<rparr>"

definition initialize_request :: JSONRPCRequest where
  "initialize_request =
     \<lparr> JSONRPCRequest.JSONRPC = ''2.0'', ID = VFloat KFloat64 0x3FF0000000000000,
       Method = ''initialize'', Params = RawMessage initialize_params \<rparr>"

text \<open>
  A request without params: the transports pass the nil \<^verbatim>\<open>json.RawMessage\<close>, on which
  every decoding fails.
\<close>

definition no_params :: raw_message where
  "no_params =
     \<lparr> as_InitializeRequestParams = Inl ''unexpected end of JSON input'',
       as_CallToolRequestParams = Inl ''unexpected end of JSON input'',
       as_ReadResourceRequestParams = Inl ''unexpected end of JSON input'',
       as_GetPromptRequestParams = Inl ''unexpected end of JSON input'',
       as_CancelledNotificationParams = Inl ''unexpected end of JSON input'' \<rparr>"

definition ping_request :: JSONRPCRequest where
  "ping_request =
     \<lparr> JSONRPCRequest.JSONRPC = ''2.0'', ID = VFloat KFloat64 0x4000000000000000,
       Method = ''ping'', Params = RawMessage no_params \<rparr>"

text \<open>
  An initialize request of the same client that asks for the protocol version
  \<^verbatim>\<open>1999-01-01\<close>, and an initialize request without params.
\<close>

definition legacy_initialize_params :: raw_message where
  "legacy_initialize_params =
     \<lparr> as_InitializeRequestParams = Inr
         \<lparr> InitializeRequestParams.ProtocolVersion = ''1999-01-01'',
           Capabilities = \<lparr> ClientCapabilities.Experimental = [], Sampling = None, Roots = None \<rparr>,
           ClientInfo = \<lparr> Implementation.Name = ''client'', Version = ''1.0'' \<rparr> \<rparr>,
       as_CallToolRequestParams = Inr \<lparr> CallToolRequestParams.Name = [], Arguments = None \<rparr>,
       as_ReadResourceRequestParams = Inr \<lparr> URI = None \<rparr>,
       as_GetPromptRequestParams = Inr \<lparr> GetPromptRequestParams.Name = [], Arguments = Map.empty \<rparr>,
       as_CancelledNotificationParams = Inr \<lparr> RequestID = VNil, Reason = [] \<rparr> \<rparr>"

definition legacy_initialize_request :: JSONRPCRequest where
  "legacy_initialize_request =
     \<lparr> JSONRPCRequest.JSONRPC = ''2.0'', ID = VFloat KFloat64 0x3FF0000000000000,
       Method = ''initialize'', Params = RawMessage legacy_initialize_params \<rparr>"

definition bare_initialize_request :: JSONRPCRequest where
  "bare_initialize_request =
     \<lparr> JSONRPCRequest.JSONRPC = ''2.0'', ID = VFloat KFloat64 0x3FF0000000000000,
       Method = ''initialize'', Params = RawMessage no_params \<rparr>"

text \<open>The session after \<open>initialize_request\<close>.\<close>

definition initialized_session :: Session where
  "initialized_session =
     \<lparr> initialized = True,
       capabilities = \<lparr> ClientCapabilities.Experimental = [], Sampling = None, Roots = None \<rparr>,
       clientInfo = \<lparr> Implementation.Name = ''client'', Version = ''1.0'' \<rparr> \<rparr>"

definition no_files :: "string \<rightharpoonup> string" where
  "no_files = Map.empty"

text \<open>
  The pattern registered under \<open>k\<close> does not take part in a match of \<open>path\<close>: there
  is no such resource, its pattern does not parse, or its expression finds nothing.
\<close>

definition rejects :: "stdlib \<Rightarrow> Server \<Rightarrow> string \<Rightarrow> string \<Rightarrow> bool" where
  "rejects L srv path k =
     (case resources srv k of
        None \<Rightarrow> True
      | Some r \<Rightarrow>
          (case parseResourcePattern L k (Resource.Handler r) of
             Panic m \<Rightarrow> False
           | Failure e \<Rightarrow> True
           | Success rp \<Rightarrow> regex rp path = None))"

section \<open>Evaluation lemmas\<close>

lemmas registration_defs = AddTool_def AddResource_def AddPrompt_def NewServer_def

lemmas reflect_defs =
  argName_def paramName_def show_nat.simps ValueOf_def Zero_def zero_of_def at_type_def
  Call_def basic_def AssignableTo_def t_any_def t_error_def

lemma reference_lib_sel:
  "url_Parse reference_lib = ref_url_Parse"
  "regexp_Compile reference_lib = ref_regexp_Compile"
  "Sscanf_d_int64 reference_lib = ref_Sscanf_d_int64"
  "Sscanf_d_uint64 reference_lib = ref_Sscanf_d_uint64"
  "Sscanf_f reference_lib = ref_Sscanf_f"
  "Sscanf_t reference_lib = ref_Sscanf_t"
  by (simp_all add: reference_lib_def)

lemmas reference_defs =
  reference_lib_sel ref_url_Parse_def ref_regexp_Compile_def plain_char_def re_literal_def
  is_letter_def is_digit_def after_authority_def FindStringSubmatch_def

lemma env_pattern:
  "parseResourcePattern reference_lib ''env/{name}'' (Func (string_func g)) =
     Success \<lparr> pattern = ''env/{name}'', regex = FindStringSubmatch (map Lit ''env/'' @ [Group]),
       paramNames = [''name''], paramTypes = [basic KString], handlerType = string_func g \<rparr>"
  by (simp add: parseResourcePattern_def reference_lib_sel ref_regexp_Compile_def string_func_def
      re_literal_def is_letter_def is_digit_def)

lemma file_pattern:
  "parseResourcePattern reference_lib ''file://{path}'' (Func (readFile files)) =
     Success \<lparr> pattern = ''file://{path}'',
       regex = FindStringSubmatch (map Lit ''file://'' @ [Group]),
       paramNames = [''path''], paramTypes = [basic KString], handlerType = readFile files \<rparr>"
  by (simp add: parseResourcePattern_def reference_lib_sel ref_regexp_Compile_def readFile_def
      re_literal_def is_letter_def is_digit_def)

section \<open>The registry\<close>

text \<open>
  C7. For tools (plain and async), resources and prompts: registering under a key that
  is already registered returns the already-exists error of that kind and the server as
  it was, so the entry of the first registration is still there and a call of the tool
  does what it did before.
\<close>

theorem duplicate_registration_fails:
  "(tools s n = Some t \<longrightarrow>
      AddTool s n h d = (s, Some (ToolExists n)) \<and>
      AddAsyncTool s n h d = (s, Some (ToolExists n)) \<and>
      tools (fst (AddTool s n h d)) n = Some t \<and>
      callTool (fst (AddTool s n h d)) p = callTool s p)
   \<and> (resources s n = Some r \<longrightarrow>
      AddResource s n h d = (s, Some (ResourceExists n)) \<and>
      resources (fst (AddResource s n h d)) n = Some r)
   \<and> (prompts s n = Some q \<longrightarrow>
      AddPrompt s n h d = (s, Some (PromptExists n)) \<and>
      prompts (fst (AddPrompt s n h d)) n = Some q)"
  by (simp add: AddTool_def AddAsyncTool_def AddResource_def AddPrompt_def)

theorem duplicate_registration_fails_witness:
  "tools test_server ''add'' =
     Some \<lparr> Tool.Handler = Func test_add, Description = ''Add two numbers'', IsAsync = False \<rparr>
   \<and> AddTool test_server ''add'' (Func (string_func (\<lambda>x. x))) ''again'' = (test_server, Some (ToolExists ''add''))
   \<and> AddAsyncTool test_server ''add'' (Func (string_func (\<lambda>x. x))) ''again''
       = (test_server, Some (ToolExists ''add''))
   \<and> tools (fst (AddTool test_server ''add'' (Func (string_func (\<lambda>x. x))) ''again'')) ''add'' =
     Some \<lparr> Tool.Handler = Func test_add, Description = ''Add two numbers'', IsAsync = False \<rparr>
   \<and> AddResource test_server ''data://{id}'' (Func (string_func (\<lambda>x. x))) ''again''
       = (test_server, Some (ResourceExists ''data://{id}''))
   \<and> AddPrompt test_server ''greet'' (Func (string_func (\<lambda>x. x))) ''again''
       = (test_server, Some (PromptExists ''greet''))"
proof -
  have t: "tools test_server ''add'' =
     Some \<lparr> Tool.Handler = Func test_add, Description = ''Add two numbers'', IsAsync = False \<rparr>"
    by (simp add: test_server_def add_server_def registration_defs)
  have r: "resources test_server ''data://{id}'' =
     Some \<lparr> Resource.Handler = Func (string_func (\<lambda>x. x)), Description = ''Get data'',
            Pattern = ''data://{id}'' \<rparr>"
    by (simp add: test_server_def add_server_def registration_defs)
  have q: "prompts test_server ''greet'' =
     Some \<lparr> Prompt.Handler = Func (string_func (\<lambda>x. ''Hello, '' @ x)),
            Description = ''Greeting prompt'' \<rparr>"
    by (simp add: test_server_def add_server_def registration_defs)
  show ?thesis
    using t r q
      duplicate_registration_fails [where s = test_server and n = "''add''" and h = "Func (string_func (\<lambda>x. x))"
        and d = "''again''"]
      duplicate_registration_fails [where s = test_server and n = "''data://{id}''"
        and h = "Func (string_func (\<lambda>x. x))" and d = "''again''"]
      duplicate_registration_fails [where s = test_server and n = "''greet''"
        and h = "Func (string_func (\<lambda>x. x))" and d = "''again''"]
    by simp
qed

section \<open>The session state\<close>

text \<open>
  C4 as the spec has it: in a session that is not initialized, an \<^verbatim>\<open>initialize\<close>
  request succeeds, and its response echoes the negotiated protocol version. On a new
  session, the request that asks for version \<^verbatim>\<open>1999-01-01\<close> is answered with
  \<^verbatim>\<open>2024-11-05\<close>, and the request without params fails with the invalid-params error
  and leaves the session not initialized.
\<close>

theorem initialize_counterexample:
  "as_InitializeRequestParams legacy_initialize_params = Inr
       \<lparr> InitializeRequestParams.ProtocolVersion = ''1999-01-01'',
         Capabilities = \<lparr> ClientCapabilities.Experimental = [], Sampling = None, Roots = None \<rparr>,
         ClientInfo = \<lparr> Implementation.Name = ''client'', Version = ''1.0'' \<rparr> \<rparr>
   \<and> HandleRequest reference_lib test_server [] NewSession legacy_initialize_request =
       (initialized_session,
        Success \<lparr> JSONRPCResponse.JSONRPC = ''2.0'', ID = VFloat KFloat64 0x3FF0000000000000,
                  Result = ResInitialize
                    \<lparr> InitializeResult.ProtocolVersion = ''2024-11-05'',
                      Capabilities = Server.capabilities test_server,
                      ServerInfo = \<lparr> Implementation.Name = ''test'', Version = ''2024-11-05'' \<rparr> \<rparr> \<rparr>)
   \<and> HandleRequest reference_lib test_server [] NewSession bare_initialize_request =
       (NewSession,
        Failure (Wrap ''invalid initialize params'' (LibError ''unexpected end of JSON input'')))
   \<and> \<not> initialized
         (fst (HandleRequest reference_lib test_server [] NewSession bare_initialize_request))"
  by (simp add: HandleRequest_def handleInitialize_def respond_def
      legacy_initialize_request_def legacy_initialize_params_def bare_initialize_request_def
      no_params_def NewSession_def initialized_session_def LatestProtocolVersion_def
      test_server_def add_server_def registration_defs)

text \<open>
  C4, amended. In a session that is not initialized, an \<^verbatim>\<open>initialize\<close> request whose
  params decode succeeds: the session becomes initialized and records the client's
  capabilities and info, and the response carries the server's constant
  \<open>LatestProtocolVersion\<close>, which does not depend on the version the client asked for,
  with the server's own capabilities and info. An \<^verbatim>\<open>initialize\<close> request whose params
  do not decode fails with the invalid-params error and leaves the session as it was.
  Every request with another method fails with the not-initialized error and leaves the
  session as it was.
\<close>

theorem uninitialized_session:
  "\<not> initialized s \<Longrightarrow>
   (JSONRPCRequest.Method req = ''initialize'' \<and> JSONRPCRequest.Params req = RawMessage raw
      \<and> as_InitializeRequestParams raw = Inr p \<longrightarrow>
      HandleRequest L srv ks s req =
        (s\<lparr> Session.capabilities := InitializeRequestParams.Capabilities p,
            clientInfo := ClientInfo p, initialized := True \<rparr>,
         Success \<lparr> JSONRPCResponse.JSONRPC = ''2.0'', ID = JSONRPCRequest.ID req,
                   Result = ResInitialize
                     \<lparr> InitializeResult.ProtocolVersion = LatestProtocolVersion,
                       Capabilities = Server.capabilities srv,
                       ServerInfo = info srv \<rparr> \<rparr>)
      \<and> initialized (fst (HandleRequest L srv ks s req)))
   \<and> (JSONRPCRequest.Method req = ''initialize'' \<and> JSONRPCRequest.Params req = RawMessage raw
      \<and> as_InitializeRequestParams raw = Inl m \<longrightarrow>
      HandleRequest L srv ks s req =
        (s, Failure (Wrap ''invalid initialize params'' (LibError m))))
   \<and> (JSONRPCRequest.Method req \<noteq> ''initialize'' \<longrightarrow>
      HandleRequest L srv ks s req = (s, Failure NotInitialized))"
  by (simp add: HandleRequest_def handleInitialize_def respond_def)

theorem uninitialized_session_witness:
  "\<not> initialized NewSession
   \<and> HandleRequest reference_lib test_server [] NewSession legacy_initialize_request =
       (initialized_session,
        Success \<lparr> JSONRPCResponse.JSONRPC = ''2.0'', ID = VFloat KFloat64 0x3FF0000000000000,
                  Result = ResInitialize
                    \<lparr> InitializeResult.ProtocolVersion = LatestProtocolVersion,
                      Capabilities = Server.capabilities test_server,
                      ServerInfo = info test_server \<rparr> \<rparr>)
   \<and> initialized
         (fst (HandleRequest reference_lib test_server [] NewSession legacy_initialize_request))
   \<and> HandleRequest reference_lib test_server [] NewSession bare_initialize_request =
       (NewSession,
        Failure (Wrap ''invalid initialize params'' (LibError ''unexpected end of JSON input'')))
   \<and> HandleRequest reference_lib test_server [] NewSession ping_request =
       (NewSession, Failure NotInitialized)"
proof -
  have u: "\<not> initialized NewSession" by (simp add: NewSession_def)
  show ?thesis
    using u
      uninitialized_session [OF u, where req = legacy_initialize_request
        and raw = legacy_initialize_params and L = reference_lib and srv = test_server
        and ks = "[]"]
      uninitialized_session [OF u, where req = bare_initialize_request and raw = no_params
        and m = "''unexpected end of JSON input''" and L = reference_lib and srv = test_server
        and ks = "[]"]
      uninitialized_session [OF u, where req = ping_request
        and L = reference_lib and srv = test_server and ks = "[]"]
    by (simp add: legacy_initialize_request_def legacy_initialize_params_def
        bare_initialize_request_def no_params_def ping_request_def NewSession_def
        initialized_session_def)
qed

text \<open>
  C5. In an initialized session, an \<^verbatim>\<open>initialize\<close> request fails with the
  already-initialized error, and the session (its state, the recorded client capabilities
  and client info) is returned as it was.
\<close>

theorem second_initialize_fails:
  "initialized s \<Longrightarrow> JSONRPCRequest.Method req = ''initialize'' \<Longrightarrow>
   HandleRequest L srv ks s req = (s, Failure AlreadyInitialized)"
  by (simp add: HandleRequest_def)

theorem second_initialize_fails_witness:
  "fst (HandleRequest reference_lib test_server [] NewSession initialize_request)
     = initialized_session
   \<and> initialized initialized_session
   \<and> HandleRequest reference_lib test_server [] initialized_session initialize_request =
       (initialized_session, Failure AlreadyInitialized)"
proof -
  have i: "initialized initialized_session" by (simp add: initialized_session_def)
  have m: "JSONRPCRequest.Method initialize_request = ''initialize''"
    by (simp add: initialize_request_def)
  have f: "fst (HandleRequest reference_lib test_server [] NewSession initialize_request)
     = initialized_session"
    by (simp add: HandleRequest_def handleInitialize_def initialize_request_def
        initialize_params_def NewSession_def initialized_session_def)
  show ?thesis
    using i f second_initialize_fails [OF i m, of reference_lib test_server "[]"] by simp
qed

section \<open>Tool calls\<close>

text \<open>
  What holds of the result processing: a second result that is a non-nil error makes a
  successful result flagged as an error with the error's text, and a nil one leaves the
  flag unset.
\<close>

lemma toolResult_error:
  "toolResult [r, Value t_error (VError m)] =
     Success \<lparr> Content = [VTextContent ''text'' m], IsError = True \<rparr>"
  by (simp add: toolResult_def t_error_def nilable_def)

lemma toolResult_nil_error:
  "toolResult [r, Value t_error VNil] =
     Success \<lparr> Content = [VString (ValueString r)], IsError = False \<rparr>"
  by (simp add: toolResult_def t_error_def nilable_def)

lemma toolResult_string:
  "toolResult [Value (basic KString) (VString x)] =
     Success \<lparr> Content = [VString x], IsError = False \<rparr>"
  by (simp add: toolResult_def basic_def)

lemma callTool_handler_error:
  "tools srv n = Some tool \<Longrightarrow> Tool.Handler tool = Func f
   \<Longrightarrow> toolArgs (ins f) 0 A = Inr args
   \<Longrightarrow> Call f args = Success [r, Value t_error (VError m)]
   \<Longrightarrow> callTool srv \<lparr> CallToolRequestParams.Name = n, Arguments = A \<rparr>
       = Success \<lparr> Content = [VTextContent ''text'' m], IsError = True \<rparr>"
  by (simp add: callTool_def toolResult_error)

text \<open>
  C1 asks that \<^verbatim>\<open>tools/call\<close> on the two-parameter tool \<^verbatim>\<open>add\<close> with the arguments
  \<^verbatim>\<open>{"arg0":"3","arg1":"4"}\<close> returns 7, the strings being decoded to the parameter
  type first. \<^verbatim>\<open>handleCallTool\<close> passes each wire value on as it is: on the tool
  \<^verbatim>\<open>add\<close> of the tests, \<^verbatim>\<open>func(a, b int) int\<close>, the call panics inside
  \<^verbatim>\<open>reflect.Value.Call\<close>, for any session that is initialized, request id and other
  decodings of the params.
\<close>

theorem tools_call_add_panics:
  "HandleRequest L add_server ks (s\<lparr>initialized := True\<rparr>)
     \<lparr> JSONRPCRequest.JSONRPC = ''2.0'', ID = rid, Method = ''tools/call'',
       Params = RawMessage (raw\<lparr> as_CallToolRequestParams := Inr
         \<lparr> CallToolRequestParams.Name = ''add'',
           Arguments = Some [''arg0'' \<mapsto> VString ''3'', ''arg1'' \<mapsto> VString ''4''] \<rparr> \<rparr>) \<rparr>
   = (s\<lparr>initialized := True\<rparr>, Panic ''reflect: Call using string as type int'')"
  by (simp add: HandleRequest_def handleCallTool_def callTool_def add_server_def
      registration_defs test_add_def reflect_defs)

text \<open>
  C6 asks that a tool's payload wraps the returned value when the handler reports no
  error. The payload holds \<^verbatim>\<open>results[0].String()\<close>, which is the value only for a
  string: for the tool \<^verbatim>\<open>add\<close> of examples/echo, \<^verbatim>\<open>func(a, b float64) float64\<close>,
  called with the numbers 3 and 4, the content is the text \<^verbatim>\<open><float64 Value>\<close>
  whatever the function returns.
\<close>

theorem tools_call_float_add_placeholder:
  "HandleRequest L (echo_server body) ks (s\<lparr>initialized := True\<rparr>)
     \<lparr> JSONRPCRequest.JSONRPC = ''2.0'', ID = rid, Method = ''tools/call'',
       Params = RawMessage (raw\<lparr> as_CallToolRequestParams := Inr
         \<lparr> CallToolRequestParams.Name = ''add'',
           Arguments = Some [''arg0'' \<mapsto> VFloat KFloat64 0x4008000000000000,
                             ''arg1'' \<mapsto> VFloat KFloat64 0x4010000000000000] \<rparr> \<rparr>) \<rparr>
   = (s\<lparr>initialized := True\<rparr>,
      Success \<lparr> JSONRPCResponse.JSONRPC = ''2.0'', ID = rid,
                Result = ResCallTool
                  \<lparr> Content = [VString ''<float64 Value>''], IsError = False \<rparr> \<rparr>)"
  by (simp add: HandleRequest_def handleCallTool_def callTool_def echo_server_def
      registration_defs echo_add_def reflect_defs toolResult_def respond_def)

text \<open>
  C8 asks that no input makes a registry, engine or matcher operation panic. A
  \<^verbatim>\<open>tools/call\<close> whose argument has another dynamic type than the parameter does: on
  the README's tool \<^verbatim>\<open>greet\<close>, \<^verbatim>\<open>func(name string) string\<close>, the argument
  \<^verbatim>\<open>{"arg0": true}\<close> read from standard input makes the serving loop panic.
\<close>

theorem stdio_tools_call_type_mismatch_panics:
  "stdio_unit L greet_server ks (s\<lparr>initialized := True\<rparr>)
     (Decoded \<lparr> msg_JSONRPC = ''2.0'', msg_ID = Some rid, msg_Method = ''tools/call'',
       msg_Params = raw\<lparr> as_CallToolRequestParams := Inr
         \<lparr> CallToolRequestParams.Name = ''greet'',
           Arguments = Some [''arg0'' \<mapsto> VBool True] \<rparr> \<rparr> \<rparr>)
   = Panic ''reflect: Call using bool as type string''"
  by (simp add: stdio_unit_def dispatch_def HandleRequest_def handleCallTool_def callTool_def
      greet_server_def registration_defs string_func_def reflect_defs)

section \<open>Prompts\<close>

lemma promptArgs_absent:
  "promptArgs L ts i A = Inr vs \<Longrightarrow> j < length ts \<Longrightarrow> A (argName (i + j)) = None
   \<Longrightarrow> vs ! j = Zero (ts ! j)"
proof (induction ts arbitrary: i vs j)
  case Nil
  then show ?case by simp
next
  case (Cons t ts)
  show ?case
  proof (cases j)
    case 0
    with Cons.prems show ?thesis by (auto split: option.splits sum.splits)
  next
    case (Suc k)
    from Cons.prems obtain v vs' where vs: "vs = v # vs'"
      and rest: "promptArgs L ts (Suc i) A = Inr vs'"
      by (auto split: option.splits sum.splits)
    from Cons.prems Suc have "k < length ts" "A (argName (Suc i + k)) = None" by simp_all
    with Cons.IH [OF rest] have "vs' ! k = Zero (ts ! k)" by blast
    with vs Suc show ?thesis by simp
  qed
qed

text \<open>An error of the argument loop comes from the conversion of an argument that is there.\<close>

lemma promptArgs_error:
  "promptArgs L ts i A = Inl e \<Longrightarrow>
   \<exists>j s e'. j < length ts \<and> A (argName (i + j)) = Some s \<and> convertValue L s (ts ! j) = Inl e'
            \<and> e = Wrap (''invalid argument '' @ argName (i + j)) e'"
proof (induction ts arbitrary: i e)
  case Nil
  then show ?case by simp
next
  case (Cons t ts)
  show ?case
  proof (cases "promptArgs L ts (Suc i) A")
    case (Inl e2)
    from Cons.IH [OF Inl] obtain j s e' where later:
      "j < length ts" "A (argName (Suc i + j)) = Some s" "convertValue L s (ts ! j) = Inl e'"
      "e2 = Wrap (''invalid argument '' @ argName (Suc i + j)) e'" by blast
    show ?thesis
    proof (cases "A (argName i)")
      case None
      with Cons.prems Inl have "e = e2" by simp
      with later show ?thesis by (intro exI [of _ "Suc j"] exI [of _ s] exI [of _ e']) simp
    next
      case (Some s0)
      show ?thesis
      proof (cases "convertValue L s0 t")
        case (Inl e0)
        with Cons.prems Some have "e = Wrap (''invalid argument '' @ argName i) e0" by simp
        with Some Inl show ?thesis by (intro exI [of _ 0] exI [of _ s0] exI [of _ e0]) simp
      next
        case (Inr v)
        with Cons.prems Some \<open>promptArgs L ts (Suc i) A = Inl e2\<close> have "e = e2" by simp
        with later show ?thesis by (intro exI [of _ "Suc j"] exI [of _ s] exI [of _ e']) simp
      qed
    qed
  next
    case (Inr vs)
    with Cons.prems obtain s0 e0 where "A (argName i) = Some s0" "convertValue L s0 t = Inl e0"
      "e = Wrap (''invalid argument '' @ argName i) e0"
      by (auto split: option.splits sum.splits)
    then show ?thesis by (intro exI [of _ 0] exI [of _ s0] exI [of _ e0]) simp
  qed
qed

lemma promptArgs_all_absent:
  "(\<And>j. j < length ts \<Longrightarrow> A (argName (i + j)) = None)
   \<Longrightarrow> promptArgs L ts i A = Inr (map Zero ts)"
proof (induction ts arbitrary: i)
  case Nil
  then show ?case by simp
next
  case (Cons t ts)
  have "A (argName i) = None" using Cons.prems [of 0] by simp
  moreover have "promptArgs L ts (Suc i) A = Inr (map Zero ts)"
  proof (rule Cons.IH)
    fix j assume "j < length ts"
    then show "A (argName (Suc i + j)) = None" using Cons.prems [of "Suc j"] by simp
  qed
  ultimately show ?case by simp
qed

lemma toolArgs_missing:
  "j < length ts \<Longrightarrow> m (argName (i + j)) = None \<Longrightarrow>
   \<exists>k\<le>j. toolArgs ts i (Some m) = Inl (MissingArgument (argName (i + k)))"
proof (induction ts arbitrary: i j)
  case Nil
  then show ?case by simp
next
  case (Cons t ts)
  show ?case
  proof (cases "m (argName i)")
    case None
    then show ?thesis by (intro exI [of _ 0]) simp
  next
    case (Some v)
    with Cons.prems obtain j' where j: "j = Suc j'" by (cases j) auto
    with Cons.prems have "j' < length ts" "m (argName (Suc i + j')) = None" by simp_all
    from Cons.IH [OF this] obtain k where "k \<le> j'"
      "toolArgs ts (Suc i) (Some m) = Inl (MissingArgument (argName (Suc i + k)))" by blast
    with Some j show ?thesis by (intro exI [of _ "Suc k"]) simp
  qed
qed

lemma Call_not_Failure: "Call f args \<noteq> Failure e"
  by (simp add: Call_def split: option.splits)

lemma promptMessages_Failure:
  "promptMessages v = Failure e \<Longrightarrow> \<exists>t. e = InvalidPromptReturn t"
  by (cases v) (auto split: if_splits)

lemma renderPrompt_Failure:
  assumes "Prompt.Handler prompt = Func f" and "renderPrompt L prompt A = Failure e"
  shows "(\<exists>j s e'. j < length (ins f) \<and> A (argName j) = Some s
            \<and> convertValue L s (ins f ! j) = Inl e'
            \<and> e = Wrap (''invalid argument '' @ argName j) e')
         \<or> (\<exists>t. e = InvalidPromptReturn t)"
proof (cases "promptArgs L (ins f) 0 A")
  case (Inl e0)
  with assms have "e = e0" by (simp add: renderPrompt_def)
  with promptArgs_error [OF Inl] show ?thesis by simp
next
  case (Inr vs)
  with assms have "\<exists>v. promptMessages v = Failure e"
    by (auto simp: renderPrompt_def Call_not_Failure split: outcome.splits list.splits)
  then show ?thesis using promptMessages_Failure by blast
qed

text \<open>
  C10. In \<^verbatim>\<open>prompts/get\<close>, a handler parameter whose key \<^verbatim>\<open>"argN"\<close> is not in the
  arguments gets the zero value of its type: the rendering never fails with a
  missing-argument error, and with no key present the handler is called on the zero
  values of all its parameters. The descriptors that \<^verbatim>\<open>parsePromptTemplate\<close> makes for
  the same handler are named \<^verbatim>\<open>arg0\<close>, \<^verbatim>\<open>arg1\<close>, ... and all marked required. In
  \<^verbatim>\<open>tools/call\<close>, an absent key fails the call with a missing-argument error.
\<close>

theorem prompt_absent_arguments_zero_filled:
  assumes "Prompt.Handler prompt = Func f"
  shows
    "(promptArgs L (ins f) 0 A = Inr vs \<and> j < length (ins f) \<and> A (argName j) = None
        \<longrightarrow> vs ! j = Zero (ins f ! j))
     \<and> renderPrompt L prompt A \<noteq> Failure (MissingArgument a)
     \<and> renderPrompt L prompt A \<noteq> Failure ArgumentsNil
     \<and> ((\<forall>k<length (ins f). A (argName k) = None) \<longrightarrow>
          renderPrompt L prompt A =
            (case Call f (map Zero (ins f)) of
               Panic m \<Rightarrow> Panic m
             | Failure e \<Rightarrow> Failure e
             | Success results \<Rightarrow>
                 (case results of
                    [] \<Rightarrow> Panic index_panic
                  | r # _ \<Rightarrow> promptMessages (Interface r))))
     \<and> parsePromptTemplate (Prompt.Handler prompt) =
          Success (map (\<lambda>i. \<lparr> PromptArgument.Name = argName i,
                               Description = ''Argument of type '' @ type_string (ins f ! i),
                               Required = Some True \<rparr>) [0..<length (ins f)])
     \<and> (prompts srv n = Some prompt \<and> JSONRPCRequest.Params req = RawMessage raw
          \<and> as_GetPromptRequestParams raw
                = Inr \<lparr> GetPromptRequestParams.Name = n, Arguments = A \<rparr> \<longrightarrow>
          handleGetPrompt L srv req =
            (case renderPrompt L prompt A of
               Panic m \<Rightarrow> Panic m
             | Failure e \<Rightarrow> Failure (Wrap ''failed to render prompt'' e)
             | Success ms \<Rightarrow> Success (respond req (ResGetPrompt (Prompt.Description prompt) ms))))
     \<and> (tools srv n = Some tool \<and> Tool.Handler tool = Func f \<and> j < length (ins f)
          \<and> m (argName j) = None \<longrightarrow>
          (\<exists>k\<le>j. callTool srv \<lparr> CallToolRequestParams.Name = n, Arguments = Some m \<rparr>
                    = Failure (MissingArgument (argName k))))"
proof (intro conjI impI)
  assume "promptArgs L (ins f) 0 A = Inr vs \<and> j < length (ins f) \<and> A (argName j) = None"
  then show "vs ! j = Zero (ins f ! j)"
    using promptArgs_absent [of L "ins f" 0 A vs j] by simp
next
  show "renderPrompt L prompt A \<noteq> Failure (MissingArgument a)"
    using renderPrompt_Failure [OF assms] by fastforce
next
  show "renderPrompt L prompt A \<noteq> Failure ArgumentsNil"
    using renderPrompt_Failure [OF assms] by fastforce
next
  assume "\<forall>k<length (ins f). A (argName k) = None"
  then have "promptArgs L (ins f) 0 A = Inr (map Zero (ins f))"
    using promptArgs_all_absent [of "ins f" A 0 L] by simp
  then show "renderPrompt L prompt A =
      (case Call f (map Zero (ins f)) of
         Panic m \<Rightarrow> Panic m
       | Failure e \<Rightarrow> Failure e
       | Success results \<Rightarrow>
           (case results of [] \<Rightarrow> Panic index_panic | r # _ \<Rightarrow> promptMessages (Interface r)))"
    using assms by (simp add: renderPrompt_def)
next
  show "parsePromptTemplate (Prompt.Handler prompt) =
      Success (map (\<lambda>i. \<lparr> PromptArgument.Name = argName i,
                           Description = ''Argument of type '' @ type_string (ins f ! i),
                           Required = Some True \<rparr>) [0..<length (ins f)])"
    using assms by (simp add: parsePromptTemplate_def promptArgument_def)
next
  assume "prompts srv n = Some prompt \<and> JSONRPCRequest.Params req = RawMessage raw
      \<and> as_GetPromptRequestParams raw = Inr \<lparr> GetPromptRequestParams.Name = n, Arguments = A \<rparr>"
  then show "handleGetPrompt L srv req =
      (case renderPrompt L prompt A of
         Panic m \<Rightarrow> Panic m
       | Failure e \<Rightarrow> Failure (Wrap ''failed to render prompt'' e)
       | Success ms \<Rightarrow> Success (respond req (ResGetPrompt (Prompt.Description prompt) ms)))"
    by (simp add: handleGetPrompt_def)
next
  assume h: "tools srv n = Some tool \<and> Tool.Handler tool = Func f \<and> j < length (ins f)
      \<and> m (argName j) = None"
  then obtain k where "k \<le> j"
    "toolArgs (ins f) 0 (Some m) = Inl (MissingArgument (argName k))"
    using toolArgs_missing [of j "ins f" m 0] by auto
  with h show "\<exists>k\<le>j. callTool srv \<lparr> CallToolRequestParams.Name = n, Arguments = Some m \<rparr>
      = Failure (MissingArgument (argName k))"
    by (intro exI [of _ k]) (simp add: callTool_def)
qed

theorem prompt_absent_arguments_zero_filled_witness:
  "prompts confirm_server ''confirm'' =
     Some \<lparr> Prompt.Handler = Func confirm, Description = ''Confirmation prompt'' \<rparr>
   \<and> promptArgs reference_lib (ins confirm) 0 Map.empty = Inr [Zero (basic KString)]
   \<and> [Zero (basic KString)] ! 0 = Zero (ins confirm ! 0)
   \<and> renderPrompt reference_lib
        \<lparr> Prompt.Handler = Func confirm, Description = ''Confirmation prompt'' \<rparr> Map.empty
       = Success [(''assistant'', VTextContent ''text'' ''Are you sure you want to ?'')]
   \<and> handleGetPrompt reference_lib confirm_server confirm_request
       = Success \<lparr> JSONRPCResponse.JSONRPC = ''2.0'', ID = VString ''p1'',
                     Result = ResGetPrompt ''Confirmation prompt''
                       [(''assistant'', VTextContent ''text'' ''Are you sure you want to ?'')] \<rparr>
   \<and> parsePromptTemplate (Func confirm) =
       Success [\<lparr> PromptArgument.Name = ''arg0'', Description = ''Argument of type string'',
                  Required = Some True \<rparr>]
   \<and> callTool confirm_server \<lparr> CallToolRequestParams.Name = ''confirm'',
                                Arguments = Some Map.empty \<rparr>
       = Failure (MissingArgument ''arg0'')"
proof -
  let ?p = "\<lparr> Prompt.Handler = Func confirm, Description = ''Confirmation prompt'' \<rparr>"
  let ?t = "\<lparr> Tool.Handler = Func confirm, Description = ''Confirmation tool'', IsAsync = False \<rparr>"
  have h: "Prompt.Handler ?p = Func confirm" by simp
  have p: "prompts confirm_server ''confirm'' = Some ?p"
    by (simp add: confirm_server_def registration_defs)
  have t: "tools confirm_server ''confirm'' = Some ?t"
    by (simp add: confirm_server_def registration_defs)
  have a: "promptArgs reference_lib (ins confirm) 0 Map.empty = Inr [Zero (basic KString)]"
    by (simp add: confirm_def string_func_def)
  have c: "Call confirm [Zero (basic KString)]
      = Success [Value (basic KString) (VString ''Are you sure you want to ?'')]"
    by (simp add: confirm_def string_func_def reflect_defs)
  have i: "ins confirm = [basic KString]" by (simp add: confirm_def string_func_def)
  show ?thesis
    using p a c i
      prompt_absent_arguments_zero_filled [OF h, where L = reference_lib and A = Map.empty
        and vs = "[Zero (basic KString)]" and j = 0 and srv = confirm_server
        and n = "''confirm''" and tool = ?t and m = Map.empty and req = confirm_request
        and raw = confirm_params]
    by (simp add: t argName_def show_nat.simps basic_def confirm_request_def confirm_params_def
        respond_def)
qed

section \<open>Resources\<close>

lemma resourceArgs_zero:
  "(\<And>j. j < length ts \<Longrightarrow> ps (paramName (i + j)) = None)
   \<Longrightarrow> resourceArgs ts i ps = map Zero ts"
proof (induction ts arbitrary: i)
  case Nil
  then show ?case by simp
next
  case (Cons t ts)
  have "ps (paramName i) = None" using Cons.prems [of 0] by simp
  moreover have "resourceArgs ts (Suc i) ps = map Zero ts"
  proof (rule Cons.IH)
    fix j assume "j < length ts"
    then show "ps (paramName (Suc i + j)) = None" using Cons.prems [of "Suc j"] by simp
  qed
  ultimately show ?case by simp
qed

text \<open>
  What holds of C2: a resource handler's non-nil error is returned as the error of the
  call, which the transports write as an error response.
\<close>

lemma resourceContents_error:
  "resourceContents [r, Value t_error (VError m)] = Failure (HandlerError m)"
  by (simp add: resourceContents_def t_error_def nilable_def)

lemma request_failure_is_error_response:
  "HandleRequest L srv ks s
     \<lparr> JSONRPCRequest.JSONRPC = v, ID = rid, Method = meth, Params = RawMessage raw \<rparr>
     = (s', Failure e)
   \<Longrightarrow> dispatch L srv ks s
         \<lparr> msg_JSONRPC = v, msg_ID = Some rid, msg_Method = meth, msg_Params = raw \<rparr>
       = Success (s', [writeErrorWithID rid (- 32603) ''Internal error'' (error_text e)])"
  by (simp add: dispatch_def)

text \<open>
  C2 asks that \<^verbatim>\<open>resources/read\<close> calls the handler with the parameters the matcher
  extracted. \<^verbatim>\<open>matchResource\<close> stores them under the placeholder's name and
  \<^verbatim>\<open>readResource\<close> looks them up under \<^verbatim>\<open>"param0"\<close>, \<^verbatim>\<open>"param1"\<close>, ...: for the
  resource \<^verbatim>\<open>env/{name}\<close> of examples/fastmcp/desktop and the URI \<^verbatim>\<open>env/HOME\<close> the
  matcher extracts \<^verbatim>\<open>name = "HOME"\<close>, and the handler is called with the empty string.
\<close>

theorem resources_read_env_gets_zero_value:
  "matchResource reference_lib (env_server getenv) [''env/{name}''] ''env/HOME'' =
     Success (\<lparr> Resource.Handler = Func (string_func getenv),
                Description = ''Get environment variable value'', Pattern = ''env/{name}'' \<rparr>,
              [''name'' \<mapsto> VString ''HOME''])
   \<and> HandleRequest reference_lib (env_server getenv) [''env/{name}''] (s\<lparr>initialized := True\<rparr>)
     \<lparr> JSONRPCRequest.JSONRPC = ''2.0'', ID = rid, Method = ''resources/read'',
       Params = RawMessage
         (raw\<lparr> as_ReadResourceRequestParams := Inr \<lparr> URI = Some ''env/HOME'' \<rparr> \<rparr>) \<rparr>
   = (s\<lparr>initialized := True\<rparr>,
      Success \<lparr> JSONRPCResponse.JSONRPC = ''2.0'', ID = rid,
                Result = ResReadResource [VString (getenv [])] \<rparr>)"
proof -
  have m: "matchResource reference_lib (env_server getenv) [''env/{name}''] ''env/HOME'' =
     Success (\<lparr> Resource.Handler = Func (string_func getenv),
                Description = ''Get environment variable value'', Pattern = ''env/{name}'' \<rparr>,
              [''name'' \<mapsto> VString ''HOME''])"
    by (simp add: matchResource_def env_server_def registration_defs env_pattern
        reference_defs convertValue_def at_type_def basic_def)
  show ?thesis
    by (simp add: m HandleRequest_def handleReadResource_def readResource_def
        string_func_def reflect_defs resourceContents_def respond_def)
qed

lemma matchLoop_not_found:
  "list_all (rejects L srv path) ks \<Longrightarrow>
   matchLoop L (resources srv) ks path uri = Failure (NoMatchingResource uri)"
  by (induction ks) (auto simp: rejects_def split: option.splits outcome.splits)

text \<open>
  In the reference expressions a group captures a non-empty run of characters other
  than the separator.
\<close>

lemma re_captures:
  "re_match ts s = Some caps \<longrightarrow> list_all (\<lambda>c. c \<noteq> [] \<and> CHR ''/'' \<notin> set c) caps"
  "group_try ts s n = Some caps \<longrightarrow> n \<le> length (takeWhile (\<lambda>c. c \<noteq> CHR ''/'') s)
     \<longrightarrow> list_all (\<lambda>c. c \<noteq> [] \<and> CHR ''/'' \<notin> set c) caps"
proof (induction ts s and ts s n arbitrary: caps and caps rule: re_match_group_try.induct)
  case (1 s)
  then show ?case by (auto split: if_splits)
next
  case (2 c ts s)
  then show ?case by (auto split: list.splits if_splits)
next
  case (3 ts s)
  then show ?case by auto
next
  case (4 ts s)
  then show ?case by simp
next
  case (5 ts s n)
  show ?case
  proof (intro impI)
    assume g: "group_try ts s (Suc n) = Some caps"
      and le: "Suc n \<le> length (takeWhile (\<lambda>c. c \<noteq> CHR ''/'') s)"
    show "list_all (\<lambda>c. c \<noteq> [] \<and> CHR ''/'' \<notin> set c) caps"
    proof (cases "re_match ts (drop (Suc n) s)")
      case None
      with g have "group_try ts s n = Some caps" by simp
      with 5(2) [OF None] le show ?thesis by simp
    next
      case (Some cs)
      with g have caps: "caps = take (Suc n) s # cs" by simp
      from 5(1) Some have cs: "list_all (\<lambda>c. c \<noteq> [] \<and> CHR ''/'' \<notin> set c) cs" by simp
      have "take (Suc n) s = take (Suc n) (takeWhile (\<lambda>c. c \<noteq> CHR ''/'') s)"
        using le by (metis takeWhile_dropWhile_id take_append diff_is_0_eq take_0 append_Nil2)
      then have "CHR ''/'' \<notin> set (take (Suc n) s)"
        by (metis in_set_takeD set_takeWhileD)
      moreover have "take (Suc n) s \<noteq> []" using le by (cases s) auto
      ultimately show ?thesis using caps cs by simp
    qed
  qed
qed

text \<open>
  C3 as the spec has it: the pattern \<^verbatim>\<open>file://{path}\<close> matches the URI
  \<^verbatim>\<open>file://a/b.txt\<close> with \<^verbatim>\<open>path = "a/b.txt"\<close>. On the file server of the examples the
  match fails.
\<close>

theorem file_pattern_counterexample:
  "matchResource reference_lib (file_server no_files) [''file://{path}''] ''file://a/b.txt''
     = Failure (NoMatchingResource ''file://a/b.txt'')"
  by (simp add: matchResource_def file_server_def registration_defs file_pattern
      reference_defs)

text \<open>
  C3, amended. The pattern \<^verbatim>\<open>file://{path}\<close> compiles to the anchored expression
  \<^verbatim>\<open>^file://([^/]+)$\<close> with the one placeholder \<^verbatim>\<open>path\<close>. A placeholder captures a
  non-empty run of characters other than the separator \<^verbatim>\<open>/\<close>: the expression finds
  \<^verbatim>\<open>path = "b.txt"\<close> in \<^verbatim>\<open>file://b.txt\<close>, and nothing in \<^verbatim>\<open>file://a/b.txt\<close> or in
  \<^verbatim>\<open>dir://a/b.txt\<close>; \<^verbatim>\<open>matchResource\<close> finds no resource for \<^verbatim>\<open>dir://a/b.txt\<close>. For
  every library, server, order and URI: when no registered pattern takes part in a match
  of the URI's path, \<^verbatim>\<open>matchResource\<close> fails with the no-matching-resource error.
\<close>

theorem file_pattern_matcher:
  "patternLoop (readFile files) ''file://{path}'' (placeholders ''file://{path}'' None) 0 [] []
       ''file://{path}'' = Inr ([''path''], [basic KString], ''file://([^/]+)'')
   \<and> (\<exists>re. parseResourcePattern reference_lib ''file://{path}'' (Func (readFile files)) =
          Success \<lparr> pattern = ''file://{path}'', regex = re, paramNames = [''path''],
                    paramTypes = [basic KString], handlerType = readFile files \<rparr>
        \<and> re ''file://b.txt'' = Some [''file://b.txt'', ''b.txt'']
        \<and> re ''file://a/b.txt'' = None
        \<and> re ''dir://a/b.txt'' = None)
   \<and> (re_match ts x = Some caps \<longrightarrow> list_all (\<lambda>c. c \<noteq> [] \<and> CHR ''/'' \<notin> set c) caps)
   \<and> matchResource reference_lib (file_server files) [''file://{path}''] ''dir://a/b.txt''
       = Failure (NoMatchingResource ''dir://a/b.txt'')
   \<and> (url_Parse L uri = Inr path \<and> list_all (rejects L srv path) ks \<longrightarrow>
        matchResource L srv ks uri = Failure (NoMatchingResource uri))"
proof (intro conjI)
  show "patternLoop (readFile files) ''file://{path}'' (placeholders ''file://{path}'' None) 0 [] []
       ''file://{path}'' = Inr ([''path''], [basic KString], ''file://([^/]+)'')"
    by (simp add: readFile_def)
next
  show "\<exists>re. parseResourcePattern reference_lib ''file://{path}'' (Func (readFile files)) =
          Success \<lparr> pattern = ''file://{path}'', regex = re, paramNames = [''path''],
                    paramTypes = [basic KString], handlerType = readFile files \<rparr>
        \<and> re ''file://b.txt'' = Some [''file://b.txt'', ''b.txt'']
        \<and> re ''file://a/b.txt'' = None
        \<and> re ''dir://a/b.txt'' = None"
    by (intro exI [of _ "FindStringSubmatch (map Lit ''file://'' @ [Group])"])
       (simp add: file_pattern FindStringSubmatch_def)
next
  show "re_match ts x = Some caps \<longrightarrow> list_all (\<lambda>c. c \<noteq> [] \<and> CHR ''/'' \<notin> set c) caps"
    by (rule re_captures(1))
next
  show "matchResource reference_lib (file_server files) [''file://{path}''] ''dir://a/b.txt''
       = Failure (NoMatchingResource ''dir://a/b.txt'')"
    by (simp add: matchResource_def file_server_def registration_defs file_pattern
        reference_defs)
next
  show "url_Parse L uri = Inr path \<and> list_all (rejects L srv path) ks \<longrightarrow>
        matchResource L srv ks uri = Failure (NoMatchingResource uri)"
    by (simp add: matchResource_def matchLoop_not_found)
qed

theorem file_pattern_matcher_witness:
  "re_match (map Lit ''file://'' @ [Group]) ''file://b.txt'' = Some [''b.txt'']
   \<and> list_all (\<lambda>c. c \<noteq> [] \<and> CHR ''/'' \<notin> set c) [''b.txt'']
   \<and> url_Parse reference_lib ''env/HOME'' = Inr ''env/HOME''
   \<and> list_all (rejects reference_lib (file_server no_files) ''env/HOME'') [''file://{path}'']
   \<and> matchResource reference_lib (file_server no_files) [''file://{path}''] ''env/HOME''
       = Failure (NoMatchingResource ''env/HOME'')"
proof -
  have m: "re_match (map Lit ''file://'' @ [Group]) ''file://b.txt'' = Some [''b.txt'']"
    by simp
  have u: "url_Parse reference_lib ''env/HOME'' = Inr ''env/HOME''"
    by (simp add: reference_defs)
  have r: "list_all (rejects reference_lib (file_server no_files) ''env/HOME'') [''file://{path}'']"
    by (simp add: rejects_def file_server_def registration_defs file_pattern
        FindStringSubmatch_def)
  show ?thesis
    using m u r
      file_pattern_matcher [where ts = "map Lit ''file://'' @ [Group]" and x = "''file://b.txt''"
        and caps = "[''b.txt'']" and L = reference_lib and uri = "''env/HOME''"
        and path = "''env/HOME''" and srv = "file_server no_files" and ks = "[''file://{path}'']"
        and files = no_files]
    by simp
qed

section \<open>Transports\<close>

text \<open>
  C9 asks that every transport answers a unit it cannot decode with an error response of
  code -32700 and a null id. The SSE and WebSocket transports do; the stdio transport
  writes the code 0.
\<close>

theorem stdio_parse_error_code:
  "stdio_unit L srv ks s (DecodeError e) =
     Success (s, [ErrorFrame \<lparr> JSONRPCError.JSONRPC = ''2.0'', ID = VNil,
                    Error = \<lparr> Code = 0, Message = ''Parse error'', Data = e \<rparr> \<rparr>])
   \<and> sse_unit L srv ks s (DecodeError e) =
     Success (s, [ErrorFrame \<lparr> JSONRPCError.JSONRPC = ''2.0'', ID = VNil,
                    Error = \<lparr> Code = - 32700, Message = ''Parse error'', Data = e \<rparr> \<rparr>])
   \<and> websocket_unit L srv ks s (DecodeError e) =
     Success (s, [ErrorFrame \<lparr> JSONRPCError.JSONRPC = ''2.0'', ID = VNil,
                    Error = \<lparr> Code = - 32700, Message = ''Parse error'', Data = e \<rparr> \<rparr>])"
  by (simp add: stdio_unit_def sse_unit_def websocket_unit_def writeError_def)

end
